theory Spec2Isabelle
  imports Complex_Main
begin

section \<open>The schedule resource of the PagerDuty provider\<close>

text \<open>
  A shallow embedding of \<^verbatim>\<open>pagerduty/resource_pagerduty_schedule.go\<close>. Structs of the
  client library are records, Go errors are values of the datatype \<open>error\<close>, a panic is
  a value of \<open>panic\<close>, a \<^verbatim>\<open>*string\<close> is a \<open>string option\<close>, and Go's \<^verbatim>\<open>int\<close> is
  \<open>int\<close> (no arithmetic of the file comes near 64 bits).
\<close>

subsection \<open>Errors and panics\<close>

datatype error =
    ParseError string
  | Errorf string
  | PDError nat "string list"
  | OtherError string
  | Wrap error error
  | WrapMsg error string

text \<open>
  \<open>ParseError v\<close> is the error of \<^verbatim>\<open>time.Parse\<close> on \<open>v\<close>; \<open>Errorf m\<close> is
  \<^verbatim>\<open>fmt.Errorf\<close> of a message without a wrapped error; \<open>PDError code errs\<close> is a
  \<^verbatim>\<open>*pagerduty.Error\<close> with the HTTP status of its response and its \<^verbatim>\<open>Errors\<close> payload;
  \<open>OtherError\<close> is any error of another dynamic type; \<open>Wrap e w\<close> is
  \<^verbatim>\<open>fmt.Errorf("%v; %w", e, w)\<close> and \<open>WrapMsg e m\<close> is \<^verbatim>\<open>fmt.Errorf("%w; %s", e, m)\<close>.
\<close>

datatype panic = NilPointerDereference | SliceBoundsOutOfRange

subsection \<open>Time\<close>

text \<open>
  A \<^verbatim>\<open>time.Time\<close> is its instant, in nanoseconds since the Unix epoch. The standard
  library's formatting and parsing, and the float rendering of the provider's
  \<^verbatim>\<open>util.go\<close>, are parameters of the model, collected in a record.
\<close>

type_synonym time = int

record lib =
  Format_RFC3339 :: "time \<Rightarrow> string"
  Parse_RFC3339 :: "string \<Rightarrow> time option"
  time_String :: "time \<Rightarrow> string"
  renderRoundedPercentage :: "real \<Rightarrow> string"

definition truncSecond :: "time \<Rightarrow> time" where
  "truncSecond t = t - t mod 1000000000"

text \<open>
  Modelled from the spec: \<^verbatim>\<open>timeToUTC\<close> (util.go, not among the sources) parses an
  RFC 3339 timestamp and converts it to UTC, which keeps the instant; it fails when the
  input cannot be parsed.
\<close>

definition timeToUTC :: "lib \<Rightarrow> string \<Rightarrow> error + time" where
  "timeToUTC L v = (case Parse_RFC3339 L v of None \<Rightarrow> Inl (ParseError v) | Some t \<Rightarrow> Inr t)"

text \<open>
  Modelled from the spec: \<^verbatim>\<open>stringPtrToStringType\<close> and \<^verbatim>\<open>stringTypeToStringPtr\<close>
  (util.go, not among the sources): an absent end is the empty string and back.
\<close>

definition stringPtrToStringType :: "string option \<Rightarrow> string" where
  "stringPtrToStringType v = (case v of None \<Rightarrow> [] | Some s \<Rightarrow> s)"

definition stringTypeToStringPtr :: "string \<Rightarrow> string option" where
  "stringTypeToStringPtr v = (if v = [] then None else Some v)"

subsection \<open>Schedule layers and restrictions\<close>

record Restriction =
  r_Type :: string
  r_StartTimeOfDay :: string
  r_StartDayOfWeek :: int
  r_DurationSeconds :: int

record ScheduleLayer =
  sl_ID :: string
  sl_Name :: string
  sl_Start :: string
  sl_End :: "string option"
  sl_RotationVirtualStart :: string
  sl_RotationTurnLengthSeconds :: int
  sl_Users :: "string list"
  sl_Restrictions :: "Restriction list"
  sl_RenderedCoveragePercentage :: real

text \<open>
  \<open>sl_Users\<close> holds the \<^verbatim>\<open>User.ID\<close> of each user reference (their type is always
  \<^verbatim>\<open>"user"\<close>).
\<close>

subsection \<open>The configuration as the SDK hands it over\<close>

text \<open>
  The attributes of the \<^verbatim>\<open>layer\<close> block, as \<^verbatim>\<open>d.Get\<close>, \<^verbatim>\<open>d.GetChange\<close> and
  \<^verbatim>\<open>diff.Get\<close> return them (maps from attribute names to values whose types the schema
  fixes).
\<close>

record RawRestriction =
  rr_type :: string
  rr_start_time_of_day :: string
  rr_start_day_of_week :: int
  rr_duration_seconds :: int

record RawLayer =
  rl_id :: string
  rl_name :: string
  rl_start :: string
  rl_end :: string
  rl_rotation_virtual_start :: string
  rl_rotation_turn_length_seconds :: int
  rl_users :: "string list"
  rl_restriction :: "RawRestriction list"

subsection \<open>CustomizeDiff\<close>

text \<open>
  \<^verbatim>\<open>diff.Get\<close> at an index that does not exist gives the zero value of the attribute's
  type, which the loops of \<^verbatim>\<open>CustomizeDiff\<close> read at \<open>li = ln\<close> and \<open>ri = rn\<close>
  (their conditions are \<^verbatim>\<open>li <= ln\<close> and \<^verbatim>\<open>ri <= rn\<close>).
\<close>

definition zeroRestriction :: RawRestriction where
  "zeroRestriction =
     \<lparr>rr_type = [], rr_start_time_of_day = [], rr_start_day_of_week = 0, rr_duration_seconds = 0\<rparr>"

definition diffRestrictions :: "RawLayer list \<Rightarrow> nat \<Rightarrow> RawRestriction list" where
  "diffRestrictions layers li = (if li < length layers then rl_restriction (layers ! li) else [])"

definition diffRestriction :: "RawLayer list \<Rightarrow> nat \<Rightarrow> nat \<Rightarrow> RawRestriction" where
  "diffRestriction layers li ri =
     (let rs = diffRestrictions layers li in if ri < length rs then rs ! ri else zeroRestriction)"

definition errStartDayOfWeek :: error where
  "errStartDayOfWeek =
     Errorf ''start_day_of_week must only be set for a weekly_restriction schedule restriction type''"

definition errDurationSeconds :: error where
  "errDurationSeconds =
     Errorf ''duration_seconds for a daily_restriction schedule restriction type must be shorter than a day''"

text \<open>The body of the inner loop: the two checks on one restriction.\<close>

definition checkRestriction :: "RawRestriction \<Rightarrow> error option" where
  "checkRestriction r =
     (let t = rr_type r in
      if t = ''daily_restriction'' \<and> rr_start_day_of_week r \<noteq> 0 then Some errStartDayOfWeek
      else let ds = rr_duration_seconds r in
        if t = ''daily_restriction'' \<and> ds \<ge> 3600 * 24 then Some errDurationSeconds
        else None)"

text \<open>A counting loop that returns at the first error.\<close>

fun forEachIndex :: "(nat \<Rightarrow> error option) \<Rightarrow> nat list \<Rightarrow> error option" where
  "forEachIndex body [] = None"
| "forEachIndex body (i # is) =
     (case body i of Some e \<Rightarrow> Some e | None \<Rightarrow> forEachIndex body is)"

definition CustomizeDiff :: "RawLayer list \<Rightarrow> error option" where
  "CustomizeDiff layers =
     (let ln = length layers in
      forEachIndex (\<lambda>li.
        let rn = length (diffRestrictions layers li) in
        forEachIndex (\<lambda>ri. checkRestriction (diffRestriction layers li ri)) [0..<Suc rn])
        [0..<Suc ln])"

subsection \<open>Reading layers back: flattenScheduleLayers\<close>

datatype scalar = SInt int | SStr string

datatype lval =
    LStr string
  | LInt int
  | LUsers "string list"
  | LRestrictions "(string \<rightharpoonup> scalar) list"

definition flattenRestriction :: "Restriction \<Rightarrow> (string \<rightharpoonup> scalar)" where
  "flattenRestriction slr =
     (let restriction = [''duration_seconds'' \<mapsto> SInt (r_DurationSeconds slr),
                         ''start_time_of_day'' \<mapsto> SStr (r_StartTimeOfDay slr),
                         ''type'' \<mapsto> SStr (r_Type slr)]
      in if r_StartDayOfWeek slr > 0
         then restriction(''start_day_of_week'' \<mapsto> SInt (r_StartDayOfWeek slr))
         else restriction)"

definition flattenLayer :: "lib \<Rightarrow> ScheduleLayer \<Rightarrow> string \<Rightarrow> (string \<rightharpoonup> lval)" where
  "flattenLayer L sl endStr =
     [''id'' \<mapsto> LStr (sl_ID sl),
      ''name'' \<mapsto> LStr (sl_Name sl),
      ''end'' \<mapsto> LStr endStr,
      ''start'' \<mapsto> LStr (sl_Start sl),
      ''rotation_virtual_start'' \<mapsto> LStr (sl_RotationVirtualStart sl),
      ''rotation_turn_length_seconds'' \<mapsto> LInt (sl_RotationTurnLengthSeconds sl),
      ''rendered_coverage_percentage'' \<mapsto>
          LStr (renderRoundedPercentage L (sl_RenderedCoveragePercentage sl)),
      ''users'' \<mapsto> LUsers (sl_Users sl),
      ''restriction'' \<mapsto> LRestrictions (map flattenRestriction (sl_Restrictions sl))]"

text \<open>
  The first loop of \<^verbatim>\<open>flattenScheduleLayers\<close>: \<open>now\<close> is what \<^verbatim>\<open>time.Now()\<close> reads,
  \<open>acc\<close> is the slice \<^verbatim>\<open>scheduleLayers\<close> built so far.
\<close>

fun flattenLoop ::
  "lib \<Rightarrow> time \<Rightarrow> ScheduleLayer list \<Rightarrow> (string \<rightharpoonup> lval) list \<Rightarrow> error + (string \<rightharpoonup> lval) list"
where
  "flattenLoop L now [] acc = Inr acc"
| "flattenLoop L now (sl # v) acc =
     (let endStr = stringPtrToStringType (sl_End sl) in
      if endStr \<noteq> [] then
        (case timeToUTC L endStr of
           Inl err \<Rightarrow> Inl err
         | Inr end \<Rightarrow>
             if now > end then flattenLoop L now v acc
             else flattenLoop L now v (acc @ [flattenLayer L sl endStr]))
      else flattenLoop L now v (acc @ [flattenLayer L sl endStr]))"

text \<open>The second loop: \<^verbatim>\<open>for i := len(scheduleLayers) - 1; i >= 0; i--\<close>.\<close>

primrec resultReversed :: "'a list \<Rightarrow> nat \<Rightarrow> 'a list" where
  "resultReversed xs 0 = []"
| "resultReversed xs (Suc i) = xs ! i # resultReversed xs i"

definition flattenScheduleLayers ::
  "lib \<Rightarrow> time \<Rightarrow> ScheduleLayer list \<Rightarrow> error + (string \<rightharpoonup> lval) list"
where
  "flattenScheduleLayers L now v =
     (case flattenLoop L now v [] of
        Inl err \<Rightarrow> Inl err
      | Inr scheduleLayers \<Rightarrow> Inr (resultReversed scheduleLayers (length scheduleLayers)))"



subsection \<open>The final schedule\<close>

record SubSchedule =
  ss_Name :: string
  ss_RenderedCoveragePercentage :: real

text \<open>
  \<^verbatim>\<open>finalSche\<close> is a pointer: \<open>None\<close> is nil, and reading a field of it panics.
\<close>

definition flattenScheFinalSchedule ::
  "lib \<Rightarrow> SubSchedule option \<Rightarrow> panic + (string \<rightharpoonup> lval) list"
where
  "flattenScheFinalSchedule L finalSche =
     (case finalSche of
        None \<Rightarrow> Inl NilPointerDereference
      | Some f \<Rightarrow>
          (let res = [];
               elem = Map.empty;
               elem = elem(''name'' \<mapsto> LStr (ss_Name f));
               elem = elem(''rendered_coverage_percentage'' \<mapsto>
                        LStr (renderRoundedPercentage L (ss_RenderedCoveragePercentage f)));
               res = res @ [elem]
           in Inr res))"

subsection \<open>Writing layers: expandScheduleLayers and the layers of an update\<close>

definition expandRestriction :: "RawRestriction \<Rightarrow> Restriction" where
  "expandRestriction rslr =
     \<lparr>r_Type = rr_type rslr,
      r_StartTimeOfDay = rr_start_time_of_day rslr,
      r_StartDayOfWeek = rr_start_day_of_week rslr,
      r_DurationSeconds = rr_duration_seconds rslr\<rparr>"

fun expandLoop :: "lib \<Rightarrow> RawLayer list \<Rightarrow> ScheduleLayer list \<Rightarrow> error + ScheduleLayer list" where
  "expandLoop L [] scheduleLayers = Inr scheduleLayers"
| "expandLoop L (rsl # v) scheduleLayers =
     (case timeToUTC L (rl_rotation_virtual_start rsl) of
        Inl err \<Rightarrow> Inl err
      | Inr rvs \<Rightarrow>
          (let scheduleLayer =
                 \<lparr>sl_ID = rl_id rsl,
                  sl_Name = rl_name rsl,
                  sl_Start = rl_start rsl,
                  sl_End = stringTypeToStringPtr (rl_end rsl),
                  sl_RotationVirtualStart = time_String L rvs,
                  sl_RotationTurnLengthSeconds = rl_rotation_turn_length_seconds rsl,
                  sl_Users = rl_users rsl,
                  sl_Restrictions = map expandRestriction (rl_restriction rsl),
                  sl_RenderedCoveragePercentage = 0\<rparr>
           in expandLoop L v (scheduleLayers @ [scheduleLayer])))"

definition expandScheduleLayers :: "lib \<Rightarrow> RawLayer list \<Rightarrow> error + ScheduleLayer list" where
  "expandScheduleLayers L v = expandLoop L v []"

text \<open>The inner loop of the update: is the old layer \<open>ol\<close> among the new ones?\<close>

fun foundLoop :: "ScheduleLayer \<Rightarrow> ScheduleLayer list \<Rightarrow> bool \<Rightarrow> bool" where
  "foundLoop ol [] found = found"
| "foundLoop ol (n # nsl) found = foundLoop ol nsl (if sl_ID ol = sl_ID n then True else found)"

text \<open>
  The outer loop: \<open>layers\<close> is \<^verbatim>\<open>schedule.ScheduleLayers\<close>, to which every old layer that
  is not found is appended with its end set. The loop calls \<^verbatim>\<open>time.Now()\<close> anew for each
  such layer, and the wall clock runs while the update computes: \<open>clk\<close> is the last known
  value of the clock (at first the instant at which the update was called, then the previous
  reading), and \<open>tick clk\<close> is what the next call of \<^verbatim>\<open>time.Now()\<close> reads. The loop gives
  back the clock with its result.
\<close>

fun endRemovedLayers ::
  "lib \<Rightarrow> (time \<Rightarrow> time) \<Rightarrow> ScheduleLayer list \<Rightarrow> ScheduleLayer list \<Rightarrow> ScheduleLayer list
     \<Rightarrow> time \<Rightarrow> (error + ScheduleLayer list) \<times> time"
where
  "endRemovedLayers L tick nsl [] layers clk = (Inr layers, clk)"
| "endRemovedLayers L tick nsl (ol # osl) layers clk =
     (let found = foundLoop ol nsl False in
      if \<not> found then
        (let now = tick clk in
         case timeToUTC L (Format_RFC3339 L now) of
           Inl err \<Rightarrow> (Inl err, now)
         | Inr end \<Rightarrow>
             (let endStr = time_String L end
              in endRemovedLayers L tick nsl osl (layers @ [ol\<lparr>sl_End := Some endStr\<rparr>]) now))
      else endRemovedLayers L tick nsl osl layers clk)"

subsection \<open>Documents of the remote service\<close>

record Target =
  t_ID :: string
  t_Type :: string

record EscalationRule =
  er_ID :: string
  er_EscalationDelayInMinutes :: int
  er_Targets :: "Target list"

record EscalationPolicy =
  ep_ID :: string
  ep_Name :: string
  ep_EscalationRules :: "EscalationRule list"

record Incident =
  inc_ID :: string
  inc_HTMLURL :: string

text \<open>
  A schedule document. \<open>s_Teams\<close> and \<open>s_EscalationPolicies\<close> hold the \<^verbatim>\<open>ID\<close> of each
  reference; \<open>s_FinalSchedule\<close> is a pointer.
\<close>

record Schedule =
  s_ID :: string
  s_Name :: string
  s_TimeZone :: string
  s_Description :: string
  s_ScheduleLayers :: "ScheduleLayer list"
  s_Teams :: "string list"
  s_EscalationPolicies :: "string list"
  s_FinalSchedule :: "SubSchedule option"

text \<open>
  The configuration of the resource: the planned values of its attributes, and the old
  value of \<^verbatim>\<open>layer\<close> (the first result of \<^verbatim>\<open>d.GetChange("layer")\<close>).
\<close>

record Config =
  cfg_name :: string
  cfg_time_zone :: string
  cfg_description :: string
  cfg_overflow :: bool
  cfg_teams :: "string list"
  cfg_layer :: "RawLayer list"
  cfg_layer_old :: "RawLayer list"

definition builtSchedule :: "Config \<Rightarrow> ScheduleLayer list \<Rightarrow> Schedule" where
  "builtSchedule cfg layers =
     \<lparr>s_ID = [], s_Name = cfg_name cfg, s_TimeZone = cfg_time_zone cfg,
      s_Description = cfg_description cfg, s_ScheduleLayers = layers,
      s_Teams = cfg_teams cfg, s_EscalationPolicies = [], s_FinalSchedule = None\<rparr>"

definition buildScheduleStruct :: "lib \<Rightarrow> Config \<Rightarrow> error + Schedule" where
  "buildScheduleStruct L cfg =
     (case expandScheduleLayers L (cfg_layer cfg) of
        Inl err \<Rightarrow> Inl err
      | Inr layers \<Rightarrow> Inr (builtSchedule cfg layers))"

text \<open>
  The schedule that \<^verbatim>\<open>resourcePagerDutyScheduleUpdate\<close> sends: that of
  \<^verbatim>\<open>buildScheduleStruct\<close>, to which, when \<^verbatim>\<open>d.HasChange("layer")\<close>, the old layers that
  are gone are appended with their end set. \<open>clk\<close> is the instant at which the update was
  called; the second component of the result is the clock when the schedule is ready.
\<close>

definition scheduleForUpdate ::
  "lib \<Rightarrow> (time \<Rightarrow> time) \<Rightarrow> time \<Rightarrow> Config \<Rightarrow> (error + Schedule) \<times> time"
where
  "scheduleForUpdate L tick clk cfg =
     (case buildScheduleStruct L cfg of
        Inl err \<Rightarrow> (Inl err, clk)
      | Inr schedule \<Rightarrow>
          if cfg_layer_old cfg \<noteq> cfg_layer cfg then
            (case expandScheduleLayers L (cfg_layer_old cfg) of
               Inl err \<Rightarrow> (Inl err, clk)
             | Inr osl \<Rightarrow>
                 (case expandScheduleLayers L (cfg_layer cfg) of
                    Inl err \<Rightarrow> (Inl err, clk)
                  | Inr nsl \<Rightarrow>
                      (case endRemovedLayers L tick nsl osl (s_ScheduleLayers schedule) clk of
                         (Inl err, clk') \<Rightarrow> (Inl err, clk')
                       | (Inr layers, clk') \<Rightarrow>
                           (Inr (schedule\<lparr>s_ScheduleLayers := layers\<rparr>), clk'))))
          else (Inr schedule, clk))"

subsection \<open>The remote service and the state of a run\<close>

text \<open>
  The client of the remote service is a parameter: each operation takes the state \<open>'w\<close> of
  the service and returns its answer and the new state. A \<^verbatim>\<open>Get\<close> answers with a pointer,
  which may be nil without an error.
\<close>

record 'w Client =
  Schedules_Create :: "Schedule \<Rightarrow> bool \<Rightarrow> 'w \<Rightarrow> (error + Schedule) \<times> 'w"
  Schedules_Get :: "string \<Rightarrow> 'w \<Rightarrow> (error + Schedule option) \<times> 'w"
  Schedules_Update :: "string \<Rightarrow> Schedule \<Rightarrow> bool \<Rightarrow> 'w \<Rightarrow> error option \<times> 'w"
  Schedules_Delete :: "string \<Rightarrow> 'w \<Rightarrow> error option \<times> 'w"
  Incidents_ListAll :: "string list \<Rightarrow> 'w \<Rightarrow> (error + Incident list) \<times> 'w"
  EscalationPolicies_Get :: "string \<Rightarrow> 'w \<Rightarrow> (error + EscalationPolicy option) \<times> 'w"
  EscalationPolicies_Update :: "string \<Rightarrow> EscalationPolicy \<Rightarrow> 'w \<Rightarrow> error option \<times> 'w"

datatype event =
    SchedulesCreate Schedule bool
  | SchedulesGet string
  | SchedulesUpdate string Schedule bool
  | SchedulesDelete string
  | IncidentsListAll "string list"
  | EscalationPoliciesGet string
  | EscalationPoliciesUpdate string EscalationPolicy
  | Sleep time

text \<open>
  The state of a run: the remote service, the wall clock (what \<^verbatim>\<open>time.Now()\<close> reads), and
  the trace of the remote calls and of the calls of \<^verbatim>\<open>time.Sleep\<close> made so far. A remote
  call takes no time in the model; time passes in \<^verbatim>\<open>time.Sleep\<close>, between the attempts of
  \<^verbatim>\<open>resource.Retry\<close>, and while an update prepares its schedule (\<open>tick\<close> above).
\<close>

record 'w state =
  world :: 'w
  clock :: time
  trace :: "event list"

definition Second :: time where "Second = 1000000000"
definition Minute :: time where "Minute = 60 * Second"

definition sleep :: "time \<Rightarrow> 'w state \<Rightarrow> 'w state" where
  "sleep d s = s\<lparr>clock := clock s + d, trace := trace s @ [Sleep d]\<rparr>"

definition remote :: "('w \<Rightarrow> 'a \<times> 'w) \<Rightarrow> event \<Rightarrow> 'w state \<Rightarrow> 'a \<times> 'w state" where
  "remote call ev s =
     (case call (world s) of (r, w) \<Rightarrow> (r, s\<lparr>world := w, trace := trace s @ [ev]\<rparr>))"

text \<open>What a Go function gives: its value, an error, or a panic.\<close>

datatype 'a outcome = Ok 'a | Err error | Panicked panic

subsection \<open>resource.Retry\<close>

text \<open>
  The closure passed to \<^verbatim>\<open>resource.Retry\<close> returns nil, \<^verbatim>\<open>resource.RetryableError(err)\<close>
  or \<^verbatim>\<open>resource.NonRetryableError(err)\<close>, or panics. It also assigns to variables of the
  enclosing function; their values are the component \<open>'v\<close>.
\<close>

datatype retry_result =
    RetryNil
  | RetryableError error
  | NonRetryableError error
  | RetryPanic panic

text \<open>
  The wait of the SDK before another attempt: 500 ms, doubled at each attempt, at most 10 s.
\<close>

definition retryWait :: "nat \<Rightarrow> time" where
  "retryWait n = min (500000000 * 2 ^ n) (10 * Second)"

text \<open>
  \<^verbatim>\<open>resource.Retry(timeout, f)\<close> of the SDK (not among the sources): \<open>f\<close> runs again after a
  retryable error until the deadline has passed; then the last error is returned. A wait
  that would reach the deadline ends there. The condition \<open>clock s < clock s' + retryWait n\<close>
  says that the clock has moved forward since the attempt began, which every run of the
  closures below satisfies; it is what the function's termination rests on.
\<close>

function retryLoop ::
  "time \<Rightarrow> nat \<Rightarrow> ('v \<Rightarrow> 'w state \<Rightarrow> (retry_result \<times> 'v) \<times> 'w state) \<Rightarrow> 'v \<Rightarrow> 'w state
     \<Rightarrow> (unit outcome \<times> 'v) \<times> 'w state"
where
  "retryLoop deadline n f v s =
     (case f v s of ((r, v'), s') \<Rightarrow>
        (case r of
           RetryNil \<Rightarrow> ((Ok (), v'), s')
         | NonRetryableError err \<Rightarrow> ((Err err, v'), s')
         | RetryPanic p \<Rightarrow> ((Panicked p, v'), s')
         | RetryableError err \<Rightarrow>
             if clock s' + retryWait n < deadline \<and> clock s < clock s' + retryWait n
             then retryLoop deadline (Suc n) f v' (s'\<lparr>clock := clock s' + retryWait n\<rparr>)
             else ((Err err, v'), s'\<lparr>clock := max (clock s') deadline\<rparr>)))"
  by pat_completeness auto
termination
  by (relation "measure (\<lambda>(deadline, n, f, v, s). nat (deadline - clock s))") auto

definition Retry ::
  "time \<Rightarrow> ('v \<Rightarrow> 'w state \<Rightarrow> (retry_result \<times> 'v) \<times> 'w state) \<Rightarrow> 'v \<Rightarrow> 'w state
     \<Rightarrow> (unit outcome \<times> 'v) \<times> 'w state"
where
  "Retry timeout f v s = retryLoop (clock s + timeout) 0 f v s"

text \<open>
  Modelled from the spec: \<^verbatim>\<open>isErrCode\<close> (util.go, not among the sources) holds of an error
  of the remote service whose HTTP status is the given code.
\<close>

definition isErrCode :: "error \<Rightarrow> nat \<Rightarrow> bool" where
  "isErrCode err code = (case err of PDError c errs \<Rightarrow> c = code | _ \<Rightarrow> False)"

text \<open>
  \<^verbatim>\<open>fmt.Sprintf("%v", e.Errors)\<close> of a list of messages: the messages between brackets,
  separated by spaces.
\<close>

fun joinSpace :: "string list \<Rightarrow> string" where
  "joinSpace [] = []"
| "joinSpace [x] = x"
| "joinSpace (x # y # ys) = x @ '' '' @ joinSpace (y # ys)"

definition sprintv :: "string list \<Rightarrow> string" where
  "sprintv errs = ''['' @ joinSpace errs @ '']''"

text \<open>
  \<^verbatim>\<open>%q\<close> of a string (\<^verbatim>\<open>strconv.Quote\<close>): the string between double quotes, in which a
  double quote and a backslash are preceded by a backslash, the control characters 0x07 to
  0x0D are written as a backslash and the letter Go gives them (a, b, t, n, v, f, r), and
  every other byte that is not printable ASCII is written as a backslash, the letter x and
  two lower-case hexadecimal digits. Strings are sequences of bytes here, and a byte above
  0x7E is written in that last way, as Go writes a byte that is not part of the UTF-8
  encoding of a printable character.
\<close>

definition hexDigit :: "nat \<Rightarrow> char" where
  "hexDigit n = ''0123456789abcdef'' ! (n mod 16)"

definition quoteByte :: "char \<Rightarrow> string" where
  "quoteByte c =
     (if c = CHR 0x22 \<or> c = CHR 0x5C then [CHR 0x5C, c]
      else if c = CHR 0x07 then [CHR 0x5C, CHR ''a'']
      else if c = CHR 0x08 then [CHR 0x5C, CHR ''b'']
      else if c = CHR 0x0C then [CHR 0x5C, CHR ''f'']
      else if c = CHR 0x0A then [CHR 0x5C, CHR ''n'']
      else if c = CHR 0x0D then [CHR 0x5C, CHR ''r'']
      else if c = CHR 0x09 then [CHR 0x5C, CHR ''t'']
      else if c = CHR 0x0B then [CHR 0x5C, CHR ''v'']
      else if (0x20::nat) \<le> of_char c \<and> (of_char c :: nat) < 0x7F then [c]
      else [CHR 0x5C, CHR ''x'', hexDigit (of_char c div 16), hexDigit (of_char c mod 16)])"

definition sprintq :: "string \<Rightarrow> string" where
  "sprintq s = [CHR 0x22] @ concat (map quoteByte s) @ [CHR 0x22]"

subsection \<open>The dependency scan\<close>

text \<open>
  The closure of the first \<^verbatim>\<open>resource.Retry\<close> of \<^verbatim>\<open>extractEPsAssociatedToSchedule\<close> and
  of \<^verbatim>\<open>listIncidentsOpenedRelatedToSchedule\<close> (the two are the same): the variable it
  assigns is \<^verbatim>\<open>s\<close>.
\<close>

definition getScheduleAttempt ::
  "'w Client \<Rightarrow> string \<Rightarrow> Schedule option \<Rightarrow> 'w state
     \<Rightarrow> (retry_result \<times> Schedule option) \<times> 'w state"
where
  "getScheduleAttempt c sid sv st =
     (case remote (Schedules_Get c sid) (SchedulesGet sid) st of
        (Inl err, st1) \<Rightarrow> ((RetryableError err, sv), sleep (2 * Second) st1)
      | (Inr resp, st1) \<Rightarrow> ((RetryNil, resp), st1))"

definition extractEPsAssociatedToSchedule ::
  "'w Client \<Rightarrow> string \<Rightarrow> 'w state \<Rightarrow> string list outcome \<times> 'w state"
where
  "extractEPsAssociatedToSchedule c sid st =
     (case Retry (10 * Second) (getScheduleAttempt c sid) None st of
        ((Err retryErr, sv), st1) \<Rightarrow> (Err retryErr, st1)
      | ((Panicked p, sv), st1) \<Rightarrow> (Panicked p, st1)
      | ((Ok u, sv), st1) \<Rightarrow>
          (case sv of
             None \<Rightarrow> (Panicked NilPointerDereference, st1)
           | Some sched \<Rightarrow> (Ok (s_EscalationPolicies sched), st1)))"

text \<open>
  The closure of the second loop of \<^verbatim>\<open>listIncidentsOpenedRelatedToSchedule\<close>; the variable
  is \<^verbatim>\<open>linksToIncidents\<close>. The options of the call are the teams, the date range
  \<^verbatim>\<open>all\<close> and the statuses \<^verbatim>\<open>triggered\<close> and \<^verbatim>\<open>acknowledged\<close>; the last two are constant
  and left out of the event.
\<close>

definition listIncidentsAttempt ::
  "'w Client \<Rightarrow> string list \<Rightarrow> string list \<Rightarrow> 'w state \<Rightarrow> (retry_result \<times> string list) \<times> 'w state"
where
  "listIncidentsAttempt c teams linksToIncidents st =
     (case remote (Incidents_ListAll c teams) (IncidentsListAll teams) st of
        (Inl err, st1) \<Rightarrow> ((RetryableError err, linksToIncidents), sleep (2 * Second) st1)
      | (Inr incidents, st1) \<Rightarrow>
          ((RetryNil, linksToIncidents @ map inc_HTMLURL incidents), st1))"

text \<open>The result of the second \<^verbatim>\<open>resource.Retry\<close> is assigned and never read.\<close>

definition listIncidentsOpenedRelatedToSchedule ::
  "'w Client \<Rightarrow> string \<Rightarrow> 'w state \<Rightarrow> string list outcome \<times> 'w state"
where
  "listIncidentsOpenedRelatedToSchedule c sid st =
     (case Retry (10 * Second) (getScheduleAttempt c sid) None st of
        ((Err retryErr, sv), st1) \<Rightarrow> (Err retryErr, st1)
      | ((Panicked p, sv), st1) \<Rightarrow> (Panicked p, st1)
      | ((Ok u, sv), st1) \<Rightarrow>
          (case sv of
             None \<Rightarrow> (Panicked NilPointerDereference, st1)
           | Some sched \<Rightarrow>
               (let teams = s_Teams sched in
                case Retry (10 * Second) (listIncidentsAttempt c teams) [] st1 of
                  ((Panicked p, linksToIncidents), st2) \<Rightarrow> (Panicked p, st2)
                | ((Err retryErr, linksToIncidents), st2) \<Rightarrow> (Ok linksToIncidents, st2)
                | ((Ok u, linksToIncidents), st2) \<Rightarrow> (Ok linksToIncidents, st2))))"

subsection \<open>Removing a schedule from an escalation policy\<close>

text \<open>
  \<^verbatim>\<open>removeScheduleFromEP\<close> removes elements from the slices it ranges over, so the slices
  are modelled with their backing arrays. A slice that starts at the beginning of its array
  is the array (whose length is the capacity) and a length. The rules of a policy are
  pointers: a rule is its index in the policy as it was fetched, and \<open>ls_targets\<close> gives the
  \<^verbatim>\<open>Targets\<close> slice of each rule.
\<close>

record 'a slice =
  sarr :: "'a list"
  slen :: nat

definition sliceOf :: "'a list \<Rightarrow> 'a slice" where
  "sliceOf xs = \<lparr>sarr = xs, slen = length xs\<rparr>"

definition elems :: "'a slice \<Rightarrow> 'a list" where
  "elems sl = take (slen sl) (sarr sl)"

text \<open>
  \<^verbatim>\<open>append(x[:i], x[i+1:]...)\<close>: \<^verbatim>\<open>x[:i]\<close> needs \<open>i\<close> within the capacity and \<^verbatim>\<open>x[i+1:]\<close>
  needs \<open>i + 1\<close> within the length, or the slice expression panics. The result fits the
  capacity, so the elements after \<open>i\<close> move one place down in the same array, whose last
  places keep what they held.
\<close>

definition removeAt :: "nat \<Rightarrow> 'a slice \<Rightarrow> panic + 'a slice" where
  "removeAt i x =
     (if i > length (sarr x) \<or> Suc i > slen x then Inl SliceBoundsOutOfRange
      else Inr \<lparr>sarr = take i (sarr x) @ take (slen x - Suc i) (drop (Suc i) (sarr x))
                        @ drop (slen x - 1) (sarr x),
                slen = slen x - 1\<rparr>)"

record loopState =
  ls_epr :: "nat slice"
  ls_targets :: "Target slice list"
  ls_needsToUpdate :: bool

text \<open>
  The inner loop, over the indices of the \<^verbatim>\<open>Targets\<close> of rule \<open>r\<close> as the slice was when the
  loop began; the element is read from the array as it is now.
\<close>

fun targetLoop :: "string \<Rightarrow> nat \<Rightarrow> nat \<Rightarrow> nat list \<Rightarrow> loopState \<Rightarrow> panic + loopState" where
  "targetLoop scheduleID ri r [] ls = Inr ls"
| "targetLoop scheduleID ri r (index # rest) ls =
     (let targets = ls_targets ls ! r;
          target = sarr targets ! index;
          isScheduleConfiguredInEscalationRule =
            (t_Type target = ''schedule_reference'' \<and> t_ID target = scheduleID)
      in if \<not> isScheduleConfiguredInEscalationRule then targetLoop scheduleID ri r rest ls
         else if slen targets > 1 then
           (case removeAt index targets of
              Inl p \<Rightarrow> Inl p
            | Inr targets' \<Rightarrow>
                targetLoop scheduleID ri r rest
                  (ls\<lparr>ls_targets := (ls_targets ls)[r := targets'], ls_needsToUpdate := True\<rparr>))
         else
           (case removeAt ri (ls_epr ls) of
              Inl p \<Rightarrow> Inl p
            | Inr epr' \<Rightarrow>
                targetLoop scheduleID ri r rest
                  (ls\<lparr>ls_epr := epr', ls_needsToUpdate := True\<rparr>)))"

text \<open>The outer loop, over the indices of \<^verbatim>\<open>epr\<close> as the slice was when the loop began.\<close>

fun ruleLoop :: "string \<Rightarrow> nat list \<Rightarrow> loopState \<Rightarrow> panic + loopState" where
  "ruleLoop scheduleID [] ls = Inr ls"
| "ruleLoop scheduleID (ri # rest) ls =
     (let r = sarr (ls_epr ls) ! ri
      in case targetLoop scheduleID ri r [0..<slen (ls_targets ls ! r)] ls of
           Inl p \<Rightarrow> Inl p
         | Inr ls' \<Rightarrow> ruleLoop scheduleID rest ls')"

text \<open>
  The loops of \<^verbatim>\<open>removeScheduleFromEP\<close> on a policy as it was fetched: whether the policy
  needs an update, and the policy after \<^verbatim>\<open>ep.EscalationRules = epr\<close>.
\<close>

definition removeScheduleLoops :: "string \<Rightarrow> EscalationPolicy \<Rightarrow> panic + bool \<times> EscalationPolicy" where
  "removeScheduleLoops scheduleID ep =
     (let rules = ep_EscalationRules ep;
          ls0 = \<lparr>ls_epr = sliceOf [0..<length rules],
                 ls_targets = map (\<lambda>r. sliceOf (er_Targets r)) rules,
                 ls_needsToUpdate = False\<rparr>
      in case ruleLoop scheduleID [0..<length rules] ls0 of
           Inl p \<Rightarrow> Inl p
         | Inr ls \<Rightarrow>
             if \<not> ls_needsToUpdate ls then Inr (False, ep)
             else Inr (True,
               ep\<lparr>ep_EscalationRules :=
                    map (\<lambda>r. (rules ! r)\<lparr>er_Targets := elems (ls_targets ls ! r)\<rparr>)
                        (elems (ls_epr ls))\<rparr>))"

definition updateEPAttempt ::
  "'w Client \<Rightarrow> EscalationPolicy \<Rightarrow> unit \<Rightarrow> 'w state \<Rightarrow> (retry_result \<times> unit) \<times> 'w state"
where
  "updateEPAttempt c ep v st =
     (case remote (EscalationPolicies_Update c (ep_ID ep) ep)
             (EscalationPoliciesUpdate (ep_ID ep) ep) st of
        (Some err, st1) \<Rightarrow>
          if \<not> isErrCode err 404 then ((RetryableError err, v), st1) else ((RetryNil, v), st1)
      | (None, st1) \<Rightarrow> ((RetryNil, v), st1))"

definition removeScheduleFromEP ::
  "'w Client \<Rightarrow> string \<Rightarrow> EscalationPolicy option \<Rightarrow> 'w state \<Rightarrow> unit outcome \<times> 'w state"
where
  "removeScheduleFromEP c scheduleID epp st =
     (case epp of
        None \<Rightarrow> (Panicked NilPointerDereference, st)
      | Some ep \<Rightarrow>
          (case removeScheduleLoops scheduleID ep of
             Inl p \<Rightarrow> (Panicked p, st)
           | Inr (needsToUpdate, ep') \<Rightarrow>
               if \<not> needsToUpdate then (Ok (), st)
               else (case Retry (10 * Second) (updateEPAttempt c ep') () st of
                       ((Err retryErr, u), st1) \<Rightarrow> (Err retryErr, st1)
                     | ((Panicked p, u), st1) \<Rightarrow> (Panicked p, st1)
                     | ((Ok u', u), st1) \<Rightarrow> (Ok (), st1))))"

text \<open>The closure of \<^verbatim>\<open>dissociateScheduleFromEPs\<close>; its variables are \<^verbatim>\<open>ep\<close> and \<^verbatim>\<open>isEPFound\<close>.\<close>

definition getEPAttempt ::
  "'w Client \<Rightarrow> string \<Rightarrow> EscalationPolicy option \<times> bool \<Rightarrow> 'w state
     \<Rightarrow> (retry_result \<times> EscalationPolicy option \<times> bool) \<times> 'w state"
where
  "getEPAttempt c epID v st =
     (case remote (EscalationPolicies_Get c epID) (EscalationPoliciesGet epID) st of
        (Inl err, st1) \<Rightarrow>
          if isErrCode err 404 then ((RetryNil, v), st1) else ((RetryableError err, v), st1)
      | (Inr resp, st1) \<Rightarrow> ((RetryNil, (resp, True)), st1))"

definition dissociateMessage :: "string \<Rightarrow> string \<Rightarrow> string" where
  "dissociateMessage scheduleID epID =
     ''Error while trying to dissociate Schedule '' @ sprintq scheduleID
       @ '' from Escalation Policy '' @ sprintq epID"

fun dissociateScheduleFromEPs ::
  "'w Client \<Rightarrow> string \<Rightarrow> string list \<Rightarrow> 'w state \<Rightarrow> unit outcome \<times> 'w state"
where
  "dissociateScheduleFromEPs c scheduleID [] st = (Ok (), st)"
| "dissociateScheduleFromEPs c scheduleID (epID # eps) st =
     (let errorMessage = dissociateMessage scheduleID epID
      in case Retry (10 * Second) (getEPAttempt c epID) (None, False) st of
           ((Err retryErr, v), st1) \<Rightarrow> (Err (WrapMsg retryErr errorMessage), st1)
         | ((Panicked p, v), st1) \<Rightarrow> (Panicked p, st1)
         | ((Ok u, (ep, isEPFound)), st1) \<Rightarrow>
             if \<not> isEPFound then dissociateScheduleFromEPs c scheduleID eps st1
             else (case removeScheduleFromEP c scheduleID ep st1 of
                     (Err err, st2) \<Rightarrow> (Err (WrapMsg err errorMessage), st2)
                   | (Panicked p, st2) \<Rightarrow> (Panicked p, st2)
                   | (Ok u', st2) \<Rightarrow> dissociateScheduleFromEPs c scheduleID eps st2))"

subsection \<open>Delete\<close>

definition usedByEscalationPolicies :: "error \<Rightarrow> bool" where
  "usedByEscalationPolicies err =
     (case err of
        PDError code errs \<Rightarrow>
          sprintv errs = ''[Schedule can't be deleted if it's being used by escalation policies]''
      | _ \<Rightarrow> False)"

text \<open>The closure of the \<^verbatim>\<open>resource.Retry\<close> of \<^verbatim>\<open>resourcePagerDutyScheduleDelete\<close>.\<close>

definition deleteAttempt ::
  "'w Client \<Rightarrow> string \<Rightarrow> string list \<Rightarrow> unit \<Rightarrow> 'w state \<Rightarrow> (retry_result \<times> unit) \<times> 'w state"
where
  "deleteAttempt c scheduleId epsAssociatedToSchedule v st =
     (case remote (Schedules_Delete c scheduleId) (SchedulesDelete scheduleId) st of
        (None, st1) \<Rightarrow> ((RetryNil, v), st1)
      | (Some err, st1) \<Rightarrow>
          if \<not> isErrCode err 400 then ((RetryableError err, v), st1)
          else if \<not> usedByEscalationPolicies err then ((NonRetryableError err, v), st1)
          else (case dissociateScheduleFromEPs c scheduleId epsAssociatedToSchedule st1 of
                  (Ok u, st2) \<Rightarrow> ((RetryableError err, v), st2)
                | (Err workaroundErr, st2) \<Rightarrow> ((RetryableError (Wrap err workaroundErr), v), st2)
                | (Panicked p, st2) \<Rightarrow> ((RetryPanic p, v), st2)))"

fun urlLinksLoop :: "string list \<Rightarrow> string \<Rightarrow> string" where
  "urlLinksLoop [] urlLinksMessage = urlLinksMessage"
| "urlLinksLoop (incident # rest) urlLinksMessage =
     urlLinksLoop rest (urlLinksMessage @ [CHR 0x0A] @ incident)"

definition openIncidentsMessage :: "string \<Rightarrow> string list \<Rightarrow> string" where
  "openIncidentsMessage scheduleId linksToIncidentsOpen =
     ''Before Removing Schedule '' @ sprintq scheduleId
       @ '' You must first resolve the following incidents related with Escalation Policies using this Schedule... ''
       @ urlLinksLoop linksToIncidentsOpen []"

text \<open>
  The resource's data: its identifier and the attributes that a read sets. \<^verbatim>\<open>d.Set\<close> is
  taken to succeed.
\<close>

record ResourceData =
  d_Id :: string
  d_name :: string
  d_time_zone :: string
  d_description :: string
  d_layer :: "(string \<rightharpoonup> lval) list"
  d_teams :: "string list"
  d_final_schedule :: "(string \<rightharpoonup> lval) list"

definition resourcePagerDutyScheduleDelete ::
  "'w Client \<Rightarrow> ResourceData \<Rightarrow> 'w state \<Rightarrow> (unit outcome \<times> ResourceData) \<times> 'w state"
where
  "resourcePagerDutyScheduleDelete c d st =
     (let scheduleId = d_Id d in
      case extractEPsAssociatedToSchedule c scheduleId st of
        (Err err, st1) \<Rightarrow> ((Err err, d), st1)
      | (Panicked p, st1) \<Rightarrow> ((Panicked p, d), st1)
      | (Ok epsAssociatedToSchedule, st1) \<Rightarrow>
          (case listIncidentsOpenedRelatedToSchedule c scheduleId st1 of
             (Err err, st2) \<Rightarrow> ((Err err, d), st2)
           | (Panicked p, st2) \<Rightarrow> ((Panicked p, d), st2)
           | (Ok linksToIncidentsOpen, st2) \<Rightarrow>
               if length linksToIncidentsOpen > 0
               then ((Err (Errorf (openIncidentsMessage scheduleId linksToIncidentsOpen)), d), st2)
               else (case Retry (2 * Minute)
                             (deleteAttempt c scheduleId epsAssociatedToSchedule) () st2 of
                       ((Err retryErr, u), st3) \<Rightarrow> ((Err retryErr, d), sleep (2 * Second) st3)
                     | ((Panicked p, u), st3) \<Rightarrow> ((Panicked p, d), st3)
                     | ((Ok u', u), st3) \<Rightarrow> ((Ok (), d\<lparr>d_Id := []\<rparr>), st3))))"

subsection \<open>Read, update and create\<close>

text \<open>The closure of the \<^verbatim>\<open>resource.Retry\<close> of \<^verbatim>\<open>resourcePagerDutyScheduleRead\<close>.\<close>

definition readAttempt ::
  "lib \<Rightarrow> 'w Client \<Rightarrow> ResourceData \<Rightarrow> 'w state \<Rightarrow> (retry_result \<times> ResourceData) \<times> 'w state"
where
  "readAttempt L c d st =
     (case remote (Schedules_Get c (d_Id d)) (SchedulesGet (d_Id d)) st of
        (Inl err, st1) \<Rightarrow> ((RetryableError err, d), sleep (2 * Second) st1)
      | (Inr None, st1) \<Rightarrow> ((RetryNil, d), st1)
      | (Inr (Some schedule), st1) \<Rightarrow>
          (let d1 = d\<lparr>d_name := s_Name schedule, d_time_zone := s_TimeZone schedule,
                      d_description := s_Description schedule\<rparr>
           in case flattenScheduleLayers L (clock st1) (s_ScheduleLayers schedule) of
                Inl err \<Rightarrow> ((NonRetryableError err, d1), st1)
              | Inr layers \<Rightarrow>
                  (let d2 = d1\<lparr>d_layer := layers, d_teams := s_Teams schedule\<rparr>
                   in case flattenScheFinalSchedule L (s_FinalSchedule schedule) of
                        Inl p \<Rightarrow> ((RetryPanic p, d2), st1)
                      | Inr final \<Rightarrow> ((RetryNil, d2\<lparr>d_final_schedule := final\<rparr>), st1))))"

definition resourcePagerDutyScheduleRead ::
  "lib \<Rightarrow> 'w Client \<Rightarrow> ResourceData \<Rightarrow> 'w state \<Rightarrow> (unit outcome \<times> ResourceData) \<times> 'w state"
where
  "resourcePagerDutyScheduleRead L c d st =
     (case Retry (30 * Second) (readAttempt L c) d st of
        ((Err retryErr, d'), st1) \<Rightarrow> ((Err retryErr, d'), sleep (2 * Second) st1)
      | ((Panicked p, d'), st1) \<Rightarrow> ((Panicked p, d'), st1)
      | ((Ok u, d'), st1) \<Rightarrow> ((Ok (), d'), st1))"

definition updateAttempt ::
  "'w Client \<Rightarrow> string \<Rightarrow> Schedule \<Rightarrow> bool \<Rightarrow> unit \<Rightarrow> 'w state \<Rightarrow> (retry_result \<times> unit) \<times> 'w state"
where
  "updateAttempt c sid schedule overflow v st =
     (case remote (Schedules_Update c sid schedule overflow) (SchedulesUpdate sid schedule overflow) st of
        (Some err, st1) \<Rightarrow> ((RetryableError err, v), st1)
      | (None, st1) \<Rightarrow> ((RetryNil, v), st1))"

text \<open>
  The update is called at the instant \<open>clock st\<close>; when its schedule is ready the clock
  reads what the last \<^verbatim>\<open>time.Now()\<close> of the preparation read, and the retry loop starts
  there.
\<close>

definition resourcePagerDutyScheduleUpdate ::
  "lib \<Rightarrow> (time \<Rightarrow> time) \<Rightarrow> 'w Client \<Rightarrow> Config \<Rightarrow> ResourceData \<Rightarrow> 'w state
     \<Rightarrow> unit outcome \<times> 'w state"
where
  "resourcePagerDutyScheduleUpdate L tick c cfg d st =
     (case scheduleForUpdate L tick (clock st) cfg of
        (Inl err, clk) \<Rightarrow> (Err err, st\<lparr>clock := clk\<rparr>)
      | (Inr schedule, clk) \<Rightarrow>
          (case Retry (2 * Minute) (updateAttempt c (d_Id d) schedule (cfg_overflow cfg)) ()
                  (st\<lparr>clock := clk\<rparr>) of
             ((Err retryErr, u), st1) \<Rightarrow> (Err retryErr, sleep (2 * Second) st1)
           | ((Panicked p, u), st1) \<Rightarrow> (Panicked p, st1)
           | ((Ok u', u), st1) \<Rightarrow> (Ok (), st1)))"


subsection \<open>Runs only add to the trace\<close>

text \<open>
  \<open>growsBy P s s'\<close>: from \<open>s\<close> to \<open>s'\<close> the trace has grown by events that satisfy \<open>P\<close>,
  and the clock has not gone back.
\<close>

definition growsBy :: "(event \<Rightarrow> bool) \<Rightarrow> 'w state \<Rightarrow> 'w state \<Rightarrow> bool" where
  "growsBy P s s' \<longleftrightarrow>
     (\<exists>evs. trace s' = trace s @ evs \<and> list_all P evs) \<and> clock s \<le> clock s'"

fun isDelete :: "event \<Rightarrow> bool" where
  "isDelete (SchedulesDelete x) = True"
| "isDelete e = False"

subsection \<open>Sample values\<close>

definition cfgRestriction :: "string \<Rightarrow> int \<Rightarrow> int \<Rightarrow> RawRestriction" where
  "cfgRestriction t dow ds =
     \<lparr>rr_type = t, rr_start_time_of_day = ''08:00:00'', rr_start_day_of_week = dow,
      rr_duration_seconds = ds\<rparr>"

definition cfgLayer :: "string \<Rightarrow> RawRestriction list \<Rightarrow> RawLayer" where
  "cfgLayer i rs =
     \<lparr>rl_id = i, rl_name = ''primary'', rl_start = ''2001-09-09T01:46:40Z'', rl_end = [],
      rl_rotation_virtual_start = ''2001-09-09T01:46:40Z'',
      rl_rotation_turn_length_seconds = 86400,
      rl_users = [''PUSER01''], rl_restriction = rs\<rparr>"

text \<open>
  The library at the instants the samples use: 1000000000 seconds after the epoch is
  2001-09-09T01:46:40Z. Other strings do not parse.
\<close>

definition sampleLib :: lib where
  "sampleLib =
     \<lparr>Format_RFC3339 = (\<lambda>t.
        if truncSecond t = 1000000000000000000 then ''2001-09-09T01:46:40Z''
        else if truncSecond t = 1000000001000000000 then ''2001-09-09T01:46:41Z''
        else if truncSecond t = 1000086400000000000 then ''2001-09-10T01:46:40Z''
        else []),
      Parse_RFC3339 = (\<lambda>s.
        if s = ''2001-09-09T01:46:40Z'' then Some 1000000000000000000
        else if s = ''2001-09-09T03:46:40+02:00'' then Some 1000000000000000000
        else if s = ''2001-09-09T01:46:41Z'' then Some 1000000001000000000
        else if s = ''2001-09-10T01:46:40Z'' then Some 1000086400000000000
        else None),
      time_String = (\<lambda>t.
        if t = 1000000000000000000 then ''2001-09-09 01:46:40 +0000 UTC''
        else if t = 1000000001000000000 then ''2001-09-09 01:46:41 +0000 UTC''
        else if t = 1000086400000000000 then ''2001-09-10 01:46:40 +0000 UTC''
        else []),
      renderRoundedPercentage = (\<lambda>p. if p = 1 then ''100'' else ''0'')\<rparr>"

text \<open>A clock on which a nanosecond passes before each reading, and one that stands still.\<close>

definition sampleTick :: "time \<Rightarrow> time" where
  "sampleTick t = t + 1"


definition remoteLayer :: "string \<Rightarrow> string option \<Rightarrow> Restriction list \<Rightarrow> ScheduleLayer" where
  "remoteLayer i e rs =
     \<lparr>sl_ID = i, sl_Name = ''Layer'', sl_Start = ''2001-09-09T01:46:40Z'', sl_End = e,
      sl_RotationVirtualStart = ''2001-09-09T01:46:40Z'',
      sl_RotationTurnLengthSeconds = 86400, sl_Users = [''PUSER01''],
      sl_Restrictions = rs, sl_RenderedCoveragePercentage = 1\<rparr>"


definition dailyR :: Restriction where
  "dailyR = \<lparr>r_Type = ''daily_restriction'', r_StartTimeOfDay = ''08:00:00'',
              r_StartDayOfWeek = 0, r_DurationSeconds = 3600\<rparr>"

definition weeklyR :: Restriction where
  "weeklyR = \<lparr>r_Type = ''weekly_restriction'', r_StartTimeOfDay = ''08:00:00'',
               r_StartDayOfWeek = 3, r_DurationSeconds = 3600\<rparr>"

definition layerIdEnds :: "error + ScheduleLayer list \<Rightarrow> (string \<times> string option) list" where
  "layerIdEnds r = (case r of Inl err \<Rightarrow> [] | Inr ls \<Rightarrow> map (\<lambda>l. (sl_ID l, sl_End l)) ls)"

definition sampleConfig :: Config where
  "sampleConfig =
     \<lparr>cfg_name = ''Primary'', cfg_time_zone = ''Europe/Berlin'',
      cfg_description = ''Managed by Terraform'', cfg_overflow = False, cfg_teams = [''PTEAM01''],
      cfg_layer = [cfgLayer ''PL2'' [], cfgLayer [] []],
      cfg_layer_old = [cfgLayer ''PL1'' [], cfgLayer ''PL2'' [], cfgLayer ''PL3'' []]\<rparr>"

text \<open>
  A remote service for the samples: every operation gives a fixed answer, and the state of
  the service counts the calls it has served.
\<close>

definition mkClient ::
  "(error + Schedule) \<Rightarrow> (error + Schedule option) \<Rightarrow> error option \<Rightarrow> error option
     \<Rightarrow> (error + Incident list) \<Rightarrow> (error + EscalationPolicy option) \<Rightarrow> error option
     \<Rightarrow> nat Client"
where
  "mkClient created got updated deleted listed gotEP updatedEP =
     \<lparr>Schedules_Create = (\<lambda>schedule overflow w. (created, Suc w)),
      Schedules_Get = (\<lambda>sid w. (got, Suc w)),
      Schedules_Update = (\<lambda>sid schedule overflow w. (updated, Suc w)),
      Schedules_Delete = (\<lambda>sid w. (deleted, Suc w)),
      Incidents_ListAll = (\<lambda>teams w. (listed, Suc w)),
      EscalationPolicies_Get = (\<lambda>epID w. (gotEP, Suc w)),
      EscalationPolicies_Update = (\<lambda>epID ep w. (updatedEP, Suc w))\<rparr>"

definition unavailable :: error where
  "unavailable = PDError 503 [''Service Unavailable'']"

definition sampleSchedule :: "SubSchedule option \<Rightarrow> Schedule" where
  "sampleSchedule final =
     \<lparr>s_ID = ''PSCHED1'', s_Name = ''Primary'', s_TimeZone = ''Europe/Berlin'',
      s_Description = ''Managed by Terraform'',
      s_ScheduleLayers = [remoteLayer ''POPEN'' None []],
      s_Teams = [''PTEAM01''], s_EscalationPolicies = [''PEP0001''],
      s_FinalSchedule = final\<rparr>"

definition sampleIncident :: Incident where
  "sampleIncident =
     \<lparr>inc_ID = ''PINC001'', inc_HTMLURL = ''https://acme.pagerduty.com/incidents/PINC001''\<rparr>"

definition sampleData :: ResourceData where
  "sampleData =
     \<lparr>d_Id = ''PSCHED1'', d_name = [], d_time_zone = [], d_description = [],
      d_layer = [], d_teams = [], d_final_schedule = []\<rparr>"

definition sampleState :: "nat state" where
  "sampleState = \<lparr>world = 0, clock = 1000000000000000000, trace = []\<rparr>"

text \<open>The service of a schedule that has an open incident on its team.\<close>

definition incidentClient :: "nat Client" where
  "incidentClient =
     mkClient (Inl unavailable) (Inr (Some (sampleSchedule None))) None None
       (Inr [sampleIncident]) (Inl unavailable) None"

text \<open>The service whose incident listing is down.\<close>

definition listingDownClient :: "nat Client" where
  "listingDownClient =
     mkClient (Inl unavailable) (Inr (Some (sampleSchedule None))) None None
       (Inl unavailable) (Inl unavailable) None"

text \<open>The service that is down altogether.\<close>

definition downClient :: "nat Client" where
  "downClient =
     mkClient (Inl unavailable) (Inl unavailable) (Some unavailable) (Some unavailable)
       (Inl unavailable) (Inl unavailable) (Some unavailable)"

definition inUse :: error where
  "inUse = PDError 400 [''Schedule can't be deleted if it's being used by escalation policies'']"

definition invalidInput :: error where
  "invalidInput = PDError 400 [''Invalid Input Provided'']"

definition notFound :: error where
  "notFound = PDError 404 [''Not Found'']"

text \<open>
  Services whose delete fails: with a 400 of another message, and with the 400 of a
  schedule in use whose escalation policy is already gone.
\<close>

definition invalidClient :: "nat Client" where
  "invalidClient =
     mkClient (Inl unavailable) (Inr (Some (sampleSchedule None))) None (Some invalidInput)
       (Inr []) (Inl notFound) None"

definition inUseClient :: "nat Client" where
  "inUseClient =
     mkClient (Inl unavailable) (Inr (Some (sampleSchedule None))) None (Some inUse)
       (Inr []) (Inl notFound) None"

text \<open>The service of a schedule with the given final schedule.\<close>

definition finalClient :: "SubSchedule option \<Rightarrow> nat Client" where
  "finalClient final =
     mkClient (Inl unavailable) (Inr (Some (sampleSchedule final))) None None
       (Inr []) (Inl notFound) None"

text \<open>
  The service of a schedule that has no final schedule and a layer whose end does not parse.
\<close>

definition badEndSchedule :: Schedule where
  "badEndSchedule =
     \<lparr>s_ID = ''PSCHED1'', s_Name = ''Primary'', s_TimeZone = ''Europe/Berlin'',
      s_Description = ''Managed by Terraform'',
      s_ScheduleLayers = [remoteLayer ''PBAD'' (Some ''yesterday'') []],
      s_Teams = [''PTEAM01''], s_EscalationPolicies = [''PEP0001''],
      s_FinalSchedule = None\<rparr>"

definition badEndClient :: "nat Client" where
  "badEndClient =
     mkClient (Inl unavailable) (Inr (Some badEndSchedule)) None None
       (Inr []) (Inl notFound) None"

text \<open>Escalation policies of the samples: \<open>tS\<close> targets the schedule, \<open>tU\<close> a user.\<close>

definition tS :: Target where
  "tS = \<lparr>t_ID = ''PSCHED1'', t_Type = ''schedule_reference''\<rparr>"

definition tU :: Target where
  "tU = \<lparr>t_ID = ''PUSER01'', t_Type = ''user_reference''\<rparr>"

definition sampleRule :: "string \<Rightarrow> Target list \<Rightarrow> EscalationRule" where
  "sampleRule i ts = \<lparr>er_ID = i, er_EscalationDelayInMinutes = 30, er_Targets = ts\<rparr>"

definition samplePolicy :: "EscalationRule list \<Rightarrow> EscalationPolicy" where
  "samplePolicy rs = \<lparr>ep_ID = ''PEP0001'', ep_Name = ''Engineering'', ep_EscalationRules = rs\<rparr>"

text \<open>The service of a schedule in use by the given escalation policy.\<close>

definition policyClient :: "EscalationPolicy \<Rightarrow> nat Client" where
  "policyClient ep =
     mkClient (Inl unavailable) (Inr (Some (sampleSchedule None))) None (Some inUse)
       (Inr []) (Inr (Some ep)) None"


text \<open>The service that is up, for a schedule without open incidents.\<close>

definition okClient :: "nat Client" where
  "okClient =
     mkClient (Inr (sampleSchedule None)) (Inr (Some (sampleSchedule None))) None None
       (Inr []) (Inl notFound) None"

section \<open>Properties\<close>

subsection \<open>Validation of restrictions\<close>

lemma forEachIndex_None: "forEachIndex body is = None \<longleftrightarrow> (\<forall>i\<in>set is. body i = None)"
  by (induction "is") (auto split: option.splits)

lemma checkRestriction_zero: "checkRestriction zeroRestriction = None"
  by (simp add: checkRestriction_def zeroRestriction_def)

lemma CustomizeDiff_None:
  "CustomizeDiff layers = None \<longleftrightarrow>
     (\<forall>l\<in>set layers. \<forall>r\<in>set (rl_restriction l). checkRestriction r = None)"
proof
  assume h: "CustomizeDiff layers = None"
  show "\<forall>l\<in>set layers. \<forall>r\<in>set (rl_restriction l). checkRestriction r = None"
  proof (intro ballI)
    fix l r assume l: "l \<in> set layers" and r: "r \<in> set (rl_restriction l)"
    from l obtain li where li: "li < length layers" "layers ! li = l"
      by (auto simp: in_set_conv_nth)
    from r obtain ri where ri: "ri < length (rl_restriction l)" "rl_restriction l ! ri = r"
      by (auto simp: in_set_conv_nth)
    from h li have "forEachIndex (\<lambda>ri. checkRestriction (diffRestriction layers li ri))
        [0..<Suc (length (diffRestrictions layers li))] = None"
      by (simp add: CustomizeDiff_def Let_def forEachIndex_None del: upt_Suc)
    then have "checkRestriction (diffRestriction layers li ri) = None"
      using li ri by (simp add: forEachIndex_None diffRestrictions_def del: upt_Suc)
    with li ri show "checkRestriction r = None"
      by (simp add: diffRestriction_def diffRestrictions_def Let_def)
  qed
next
  assume h: "\<forall>l\<in>set layers. \<forall>r\<in>set (rl_restriction l). checkRestriction r = None"
  show "CustomizeDiff layers = None"
    unfolding CustomizeDiff_def Let_def forEachIndex_None
    using h
    by (auto simp: all_set_conv_all_nth diffRestriction_def diffRestrictions_def Let_def
        checkRestriction_zero)
qed

lemma checkRestriction_None:
  "checkRestriction r = None \<longleftrightarrow>
     \<not> (rr_type r = ''daily_restriction'' \<and>
        (rr_start_day_of_week r \<noteq> 0 \<or> rr_duration_seconds r \<ge> 86400))"
  by (auto simp: checkRestriction_def Let_def)

text \<open>
  C6. \<^verbatim>\<open>CustomizeDiff\<close> accepts a configuration exactly when no restriction of any layer
  is a \<^verbatim>\<open>daily_restriction\<close> with a nonzero \<^verbatim>\<open>start_day_of_week\<close> or with
  \<^verbatim>\<open>duration_seconds\<close> of 86400 or more. So a daily restriction of 86400 seconds or more
  is rejected, one with a day of the week is rejected, a daily restriction of at most 86399
  seconds without a day of the week passes the check, and so does every weekly restriction
  (with a day of the week in 1..7 or any other).
\<close>

theorem CustomizeDiff_restrictions:
  "(CustomizeDiff layers = None \<longleftrightarrow>
      (\<forall>l\<in>set layers. \<forall>r\<in>set (rl_restriction l).
         \<not> (rr_type r = ''daily_restriction'' \<and>
            (rr_start_day_of_week r \<noteq> 0 \<or> rr_duration_seconds r \<ge> 86400)))) \<and>
   (\<forall>l\<in>set layers. \<forall>r\<in>set (rl_restriction l).
      rr_type r = ''daily_restriction'' \<and> rr_duration_seconds r \<ge> 86400 \<longrightarrow>
        CustomizeDiff layers \<noteq> None) \<and>
   (\<forall>l\<in>set layers. \<forall>r\<in>set (rl_restriction l).
      rr_type r = ''daily_restriction'' \<and> rr_start_day_of_week r \<noteq> 0 \<longrightarrow>
        CustomizeDiff layers \<noteq> None) \<and>
   (\<forall>r. rr_type r = ''weekly_restriction'' \<longrightarrow> checkRestriction r = None) \<and>
   (\<forall>r. rr_type r = ''daily_restriction'' \<and> rr_start_day_of_week r = 0 \<and>
        rr_duration_seconds r \<le> 86399 \<longrightarrow> checkRestriction r = None)"
proof -
  have iff: "CustomizeDiff layers = None \<longleftrightarrow>
      (\<forall>l\<in>set layers. \<forall>r\<in>set (rl_restriction l).
         \<not> (rr_type r = ''daily_restriction'' \<and>
            (rr_start_day_of_week r \<noteq> 0 \<or> rr_duration_seconds r \<ge> 86400)))"
    by (simp only: CustomizeDiff_None checkRestriction_None)
  have weekly: "\<forall>r. rr_type r = ''weekly_restriction'' \<longrightarrow> checkRestriction r = None"
    by (simp add: checkRestriction_None)
  have daily: "\<forall>r. rr_type r = ''daily_restriction'' \<and> rr_start_day_of_week r = 0 \<and>
        rr_duration_seconds r \<le> 86399 \<longrightarrow> checkRestriction r = None"
    by (simp add: checkRestriction_None)
  from iff weekly daily show ?thesis by blast
qed

theorem CustomizeDiff_restrictions_witness:
  "CustomizeDiff [cfgLayer [] [cfgRestriction ''daily_restriction'' 0 86399,
                              cfgRestriction ''weekly_restriction'' 3 90000]] = None \<and>
   CustomizeDiff [cfgLayer [] [cfgRestriction ''daily_restriction'' 0 86400]] \<noteq> None \<and>
   CustomizeDiff [cfgLayer [] [cfgRestriction ''daily_restriction'' 3 3600]] \<noteq> None"
proof -
  have a: "CustomizeDiff [cfgLayer [] [cfgRestriction ''daily_restriction'' 0 86399,
                              cfgRestriction ''weekly_restriction'' 3 90000]] = None"
    using CustomizeDiff_restrictions
      [of "[cfgLayer [] [cfgRestriction ''daily_restriction'' 0 86399,
                         cfgRestriction ''weekly_restriction'' 3 90000]]"]
    by (simp add: cfgLayer_def cfgRestriction_def)
  have b: "CustomizeDiff [cfgLayer [] [cfgRestriction ''daily_restriction'' 0 86400]] \<noteq> None"
    using CustomizeDiff_restrictions
      [of "[cfgLayer [] [cfgRestriction ''daily_restriction'' 0 86400]]"]
    by (simp add: cfgLayer_def cfgRestriction_def)
  have c: "CustomizeDiff [cfgLayer [] [cfgRestriction ''daily_restriction'' 3 3600]] \<noteq> None"
    using CustomizeDiff_restrictions
      [of "[cfgLayer [] [cfgRestriction ''daily_restriction'' 3 3600]]"]
    by (simp add: cfgLayer_def cfgRestriction_def)
  from a b c show ?thesis by simp
qed

subsection \<open>Reading layers back\<close>

lemma resultReversed_take: "n \<le> length xs \<Longrightarrow> resultReversed xs n = rev (take n xs)"
  by (induction n) (auto simp: take_Suc_conv_app_nth)

lemma resultReversed_rev: "resultReversed xs (length xs) = rev xs"
  by (simp add: resultReversed_take)



lemma flattenLoop_sub:
  "flattenLoop L now v acc = Inr out \<Longrightarrow>
     \<exists>ys. out = acc @ map (\<lambda>sl. flattenLayer L sl (stringPtrToStringType (sl_End sl))) ys \<and>
          set ys \<subseteq> set v"
proof (induction v arbitrary: acc)
  case Nil
  then show ?case by auto
next
  case (Cons sl v)
  let ?f = "\<lambda>sl. flattenLayer L sl (stringPtrToStringType (sl_End sl))"
  from Cons.prems consider
      (skip) "flattenLoop L now v acc = Inr out"
    | (keep) "flattenLoop L now v (acc @ [?f sl]) = Inr out"
    by (auto simp: Let_def split: if_splits sum.splits)
  then show ?case
  proof cases
    case skip
    from Cons.IH [OF this] show ?thesis by auto
  next
    case keep
    from Cons.IH [OF this] obtain ys where
      "out = (acc @ [?f sl]) @ map ?f ys" "set ys \<subseteq> set v" by blast
    then have "out = acc @ map ?f (sl # ys) \<and> set (sl # ys) \<subseteq> set (sl # v)" by auto
    then show ?thesis by blast
  qed
qed

lemma flattenScheduleLayers_members:
  assumes "flattenScheduleLayers L now v = Inr out" and "m \<in> set out"
  shows "\<exists>sl\<in>set v. m = flattenLayer L sl (stringPtrToStringType (sl_End sl))"
proof -
  from assms(1) obtain xs where xs: "flattenLoop L now v [] = Inr xs" "out = rev xs"
    by (auto simp: flattenScheduleLayers_def resultReversed_rev split: sum.splits)
  from flattenLoop_sub [OF xs(1)] obtain ys where
    ys: "xs = map (\<lambda>sl. flattenLayer L sl (stringPtrToStringType (sl_End sl))) ys"
      "set ys \<subseteq> set v"
    by auto
  from assms(2) xs(2) ys(1) obtain sl where
    "sl \<in> set ys" "m = flattenLayer L sl (stringPtrToStringType (sl_End sl))" by auto
  with ys(2) show ?thesis by blast
qed




subsection \<open>The day of the week of a restriction\<close>

lemma flattenRestriction_key:
  "(''start_day_of_week'' \<in> dom (flattenRestriction slr)) = (r_StartDayOfWeek slr > 0)"
  by (simp add: flattenRestriction_def Let_def dom_def)

lemma flattenRestriction_value:
  "flattenRestriction slr ''start_day_of_week'' =
     (if r_StartDayOfWeek slr > 0 then Some (SInt (r_StartDayOfWeek slr)) else None)"
  by (simp add: flattenRestriction_def Let_def)

lemma flattenLayer_restriction:
  "flattenLayer L sl e ''restriction'' =
     Some (LRestrictions (map flattenRestriction (sl_Restrictions sl)))"
  by (simp add: flattenLayer_def)

text \<open>
  C8. Every layer map of the view comes from a remote layer, and its
  \<^verbatim>\<open>restriction\<close> entry is the list of that layer's restrictions, in order, each as a
  map that has the key \<^verbatim>\<open>start_day_of_week\<close> exactly when the restriction's day of the
  week is greater than zero (with that value); at zero the key is absent.
\<close>

theorem start_day_of_week_omitted:
  assumes "flattenScheduleLayers L now v = Inr out" and "m \<in> set out"
  shows "\<exists>sl\<in>set v.
           m ''restriction'' = Some (LRestrictions (map flattenRestriction (sl_Restrictions sl))) \<and>
           (\<forall>slr\<in>set (sl_Restrictions sl).
              (''start_day_of_week'' \<in> dom (flattenRestriction slr)) = (r_StartDayOfWeek slr > 0) \<and>
              flattenRestriction slr ''start_day_of_week'' =
                (if r_StartDayOfWeek slr > 0 then Some (SInt (r_StartDayOfWeek slr)) else None))"
proof -
  from flattenScheduleLayers_members [OF assms] obtain sl where
    sl: "sl \<in> set v" "m = flattenLayer L sl (stringPtrToStringType (sl_End sl))" by blast
  have "m ''restriction'' = Some (LRestrictions (map flattenRestriction (sl_Restrictions sl)))"
    by (simp add: sl(2) flattenLayer_restriction)
  with sl(1) show ?thesis
    using flattenRestriction_key flattenRestriction_value by blast
qed

theorem start_day_of_week_omitted_witness:
  "flattenScheduleLayers sampleLib 1000000000000000005
       [remoteLayer ''POPEN'' None [dailyR, weeklyR]]
     = Inr [flattenLayer sampleLib (remoteLayer ''POPEN'' None [dailyR, weeklyR]) []] \<and>
   flattenLayer sampleLib (remoteLayer ''POPEN'' None [dailyR, weeklyR]) [] ''restriction''
     = Some (LRestrictions [flattenRestriction dailyR, flattenRestriction weeklyR]) \<and>
   ''start_day_of_week'' \<notin> dom (flattenRestriction dailyR) \<and>
   flattenRestriction dailyR ''start_day_of_week'' = None \<and>
   flattenRestriction weeklyR ''start_day_of_week'' = Some (SInt 3)"
proof -
  let ?v = "[remoteLayer ''POPEN'' None [dailyR, weeklyR]]"
  let ?m = "flattenLayer sampleLib (remoteLayer ''POPEN'' None [dailyR, weeklyR]) []"
  have a: "flattenScheduleLayers sampleLib 1000000000000000005 ?v = Inr [?m]"
    by (simp add: flattenScheduleLayers_def stringPtrToStringType_def remoteLayer_def)
  have b: "?m \<in> set [?m]" by simp
  from start_day_of_week_omitted [OF a b]
  show ?thesis using a
    by (simp add: remoteLayer_def dailyR_def weeklyR_def)
qed

subsection \<open>The layers of an update\<close>

lemma foundLoop_iff: "foundLoop ol nsl found \<longleftrightarrow> found \<or> sl_ID ol \<in> sl_ID ` set nsl"
  by (induction nsl arbitrary: found) auto

lemma endRemovedLayers_closed:
  assumes "\<forall>i < length (filter (\<lambda>ol. sl_ID ol \<notin> sl_ID ` set nsl) osl).
             Parse_RFC3339 L (Format_RFC3339 L ((tick ^^ Suc i) clk))
               = Some (truncSecond ((tick ^^ Suc i) clk))"
  shows "endRemovedLayers L tick nsl osl layers clk =
     (Inr (layers @
           map (\<lambda>(i, ol). ol\<lparr>sl_End := Some (time_String L (truncSecond ((tick ^^ Suc i) clk)))\<rparr>)
               (enumerate 0 (filter (\<lambda>ol. sl_ID ol \<notin> sl_ID ` set nsl) osl))),
      (tick ^^ length (filter (\<lambda>ol. sl_ID ol \<notin> sl_ID ` set nsl) osl)) clk)"
  using assms
proof (induction osl arbitrary: layers clk)
  case Nil
  then show ?case by simp
next
  case (Cons ol osl)
  let ?nf = "\<lambda>ol. sl_ID ol \<notin> sl_ID ` set nsl"
  show ?case
  proof (cases "?nf ol")
    case False
    with Cons show ?thesis by (simp add: foundLoop_iff)
  next
    case True
    from Cons.prems True
    have p0: "Parse_RFC3339 L (Format_RFC3339 L (tick clk)) = Some (truncSecond (tick clk))"
      by (auto dest: spec [of _ 0])
    have ps: "\<forall>i < length (filter ?nf osl).
             Parse_RFC3339 L (Format_RFC3339 L ((tick ^^ Suc i) (tick clk)))
               = Some (truncSecond ((tick ^^ Suc i) (tick clk)))"
    proof (intro allI impI)
      fix i assume "i < length (filter ?nf osl)"
      with Cons.prems True
      have "Parse_RFC3339 L (Format_RFC3339 L ((tick ^^ Suc (Suc i)) clk))
               = Some (truncSecond ((tick ^^ Suc (Suc i)) clk))"
        by (auto dest: spec [of _ "Suc i"])
      moreover have "(tick ^^ Suc (Suc i)) clk = (tick ^^ Suc i) (tick clk)"
        by (simp add: funpow_swap1)
      ultimately show "Parse_RFC3339 L (Format_RFC3339 L ((tick ^^ Suc i) (tick clk)))
               = Some (truncSecond ((tick ^^ Suc i) (tick clk)))"
        by simp
    qed
    show ?thesis
      using True p0 Cons.IH [OF ps]
      by (simp add: foundLoop_iff timeToUTC_def Let_def enumerate_Suc_eq split_beta
          funpow_swap1 comp_def)
  qed
qed

lemma funpow_inflating:
  fixes tick :: "time \<Rightarrow> time"
  assumes "\<forall>t. t \<le> tick t"
  shows "now \<le> (tick ^^ n) now"
proof (induction n)
  case 0
  then show ?case by simp
next
  case (Suc n)
  have "(tick ^^ n) now \<le> tick ((tick ^^ n) now)" using assms by blast
  with Suc show ?case by simp
qed

lemma truncSecond_gt: "now < truncSecond now + 1000000000"
  by (simp add: truncSecond_def)

lemma truncSecond_le: "truncSecond now \<le> now"
  by (simp add: truncSecond_def)

subsection \<open>The retry loop\<close>

declare retryLoop.simps [simp del]

lemma growsBy_refl: "growsBy P s s"
  by (simp add: growsBy_def)

lemma growsBy_trans: "growsBy P s s' \<Longrightarrow> growsBy P s' s'' \<Longrightarrow> growsBy P s s''"
  by (auto simp: growsBy_def)

lemma growsBy_clock: "growsBy P s s' \<Longrightarrow> clock s' \<le> t \<Longrightarrow> growsBy P s (s'\<lparr>clock := t\<rparr>)"
  by (auto simp: growsBy_def)

lemma growsBy_sleep: "P (Sleep d) \<Longrightarrow> 0 \<le> d \<Longrightarrow> growsBy P s (sleep d s)"
  by (simp add: growsBy_def sleep_def)

lemma growsBy_remote: "P ev \<Longrightarrow> remote call ev s = (r, s') \<Longrightarrow> growsBy P s s'"
  by (auto simp: growsBy_def remote_def split: prod.splits)

lemma growsBy_mono: "growsBy P s s' \<Longrightarrow> (\<And>e. P e \<Longrightarrow> Q e) \<Longrightarrow> growsBy Q s s'"
  by (auto simp: growsBy_def list_all_iff)

lemma retryWait_pos: "0 < retryWait n"
  by (simp add: retryWait_def Second_def)

lemma retryLoop_nil:
  "f v s = ((RetryNil, v'), s') \<Longrightarrow> retryLoop deadline n f v s = ((Ok (), v'), s')"
  by (subst retryLoop.simps) simp

lemma retryLoop_nonretryable:
  "f v s = ((NonRetryableError err, v'), s') \<Longrightarrow>
     retryLoop deadline n f v s = ((Err err, v'), s')"
  by (subst retryLoop.simps) simp

lemma retryLoop_panic:
  "f v s = ((RetryPanic p, v'), s') \<Longrightarrow> retryLoop deadline n f v s = ((Panicked p, v'), s')"
  by (subst retryLoop.simps) simp

lemma retryLoop_again:
  "f v s = ((RetryableError err, v'), s') \<Longrightarrow>
   clock s' + retryWait n < deadline \<and> clock s < clock s' + retryWait n \<Longrightarrow>
     retryLoop deadline n f v s =
       retryLoop deadline (Suc n) f v' (s'\<lparr>clock := clock s' + retryWait n\<rparr>)"
  by (subst retryLoop.simps) simp

lemma retryLoop_timeout:
  "f v s = ((RetryableError err, v'), s') \<Longrightarrow>
   \<not> (clock s' + retryWait n < deadline \<and> clock s < clock s' + retryWait n) \<Longrightarrow>
     retryLoop deadline n f v s = ((Err err, v'), s'\<lparr>clock := max (clock s') deadline\<rparr>)"
  by (subst retryLoop.simps) auto

lemma retryLoop_growsBy:
  assumes "\<And>v s. growsBy P s (snd (f v s))"
  shows "growsBy P s (snd (retryLoop deadline n f v s))"
  using assms
proof (induction deadline n f v s rule: retryLoop.induct)
  case (1 deadline n f v s)
  obtain r v' s' where f: "f v s = ((r, v'), s')" by (metis prod.exhaust)
  from "1.prems" [of s v] f have g: "growsBy P s s'" by simp
  show ?case
  proof (cases r)
    case (RetryableError err)
    show ?thesis
    proof (cases "clock s' + retryWait n < deadline \<and> clock s < clock s' + retryWait n")
      case True
      from g have "growsBy P s (s'\<lparr>clock := clock s' + retryWait n\<rparr>)"
        using retryWait_pos [of n] by (intro growsBy_clock) auto
      moreover have "growsBy P (s'\<lparr>clock := clock s' + retryWait n\<rparr>)
          (snd (retryLoop deadline (Suc n) f v' (s'\<lparr>clock := clock s' + retryWait n\<rparr>)))"
        using "1.IH" [OF f [symmetric] refl RetryableError True "1.prems"] .
      ultimately show ?thesis
        using f RetryableError True
        by (subst retryLoop.simps) (auto intro: growsBy_trans)
    next
      case False
      from g have "growsBy P s (s'\<lparr>clock := max (clock s') deadline\<rparr>)"
        by (intro growsBy_clock) auto
      with f RetryableError False show ?thesis
        by (subst retryLoop.simps) auto
    qed
  qed (use f g in \<open>subst retryLoop.simps, simp\<close>)+
qed


lemma Retry_growsBy:
  assumes "\<And>v s. growsBy P s (snd (f v s))"
  shows "growsBy P s (snd (Retry timeout f v s))"
  unfolding Retry_def using assms by (rule retryLoop_growsBy)

lemma retryLoop_retryable:
  assumes "\<And>s. \<exists>e s'. f v s = ((RetryableError e, v), s') \<and> clock s \<le> clock s' \<and>
              clock s' \<le> clock s + \<delta> \<and> R e (world s')"
    and "clock s \<le> deadline"
  shows "\<exists>e s'. retryLoop deadline n f v s = ((Err e, v), s') \<and> deadline \<le> clock s' \<and>
            clock s' \<le> deadline + \<delta> \<and> R e (world s')"
  using assms
proof (induction deadline n f v s rule: retryLoop.induct)
  case (1 deadline n f v s)
  from "1.prems"(1) [of s] obtain e s' where
    f: "f v s = ((RetryableError e, v), s')" and c: "clock s \<le> clock s'"
      "clock s' \<le> clock s + \<delta>" and R: "R e (world s')"
    by blast
  show ?case
  proof (cases "clock s' + retryWait n < deadline \<and> clock s < clock s' + retryWait n")
    case True
    have "\<exists>e s''. retryLoop deadline (Suc n) f v (s'\<lparr>clock := clock s' + retryWait n\<rparr>)
                      = ((Err e, v), s'') \<and> deadline \<le> clock s'' \<and>
                    clock s'' \<le> deadline + \<delta> \<and> R e (world s'')"
      using "1.IH" [OF f [symmetric] refl refl True "1.prems"(1)] True by simp
    with f True show ?thesis
      by (subst retryLoop.simps) simp
  next
    case False
    have "retryLoop deadline n f v s = ((Err e, v), s'\<lparr>clock := max (clock s') deadline\<rparr>)"
      using f False by (rule retryLoop_timeout)
    moreover have "max (clock s') deadline \<le> deadline + \<delta>"
      using c "1.prems"(2) by simp
    ultimately show ?thesis using R by simp
  qed
qed

lemma Retry_retryable:
  assumes "\<And>s. \<exists>e s'. f v s = ((RetryableError e, v), s') \<and> clock s \<le> clock s' \<and>
              clock s' \<le> clock s + \<delta> \<and> R e (world s')"
    and "0 \<le> timeout"
  shows "\<exists>e s'. Retry timeout f v s = ((Err e, v), s') \<and> clock s + timeout \<le> clock s' \<and>
            clock s' \<le> clock s + timeout + \<delta> \<and> R e (world s')"
  unfolding Retry_def
  using retryLoop_retryable [of f v \<delta> R s "clock s + timeout" 0] assms by simp

subsection \<open>What the operations add to the trace\<close>

lemma Second_pos: "0 < Second" "0 \<le> 2 * Second" "0 \<le> 10 * Second" "0 \<le> 30 * Second"
  "0 \<le> 2 * Minute"
  by (simp_all add: Second_def Minute_def)

lemma getScheduleAttempt_grows:
  "growsBy (\<lambda>e. \<not> isDelete e) s (snd (getScheduleAttempt c sid sv s))"
proof -
  obtain r s1 where r: "remote (Schedules_Get c sid) (SchedulesGet sid) s = (r, s1)"
    by (metis prod.exhaust)
  then have g: "growsBy (\<lambda>e. \<not> isDelete e) s s1" by (intro growsBy_remote [OF _ r]) simp
  show ?thesis
  proof (cases r)
    case (Inl err)
    have "growsBy (\<lambda>e. \<not> isDelete e) s1 (sleep (2 * Second) s1)"
      by (intro growsBy_sleep) (simp_all add: Second_pos)
    with g Inl r show ?thesis
      by (auto simp: getScheduleAttempt_def intro: growsBy_trans)
  next
    case (Inr resp)
    with g r show ?thesis by (simp add: getScheduleAttempt_def)
  qed
qed

lemma listIncidentsAttempt_grows:
  "growsBy (\<lambda>e. \<not> isDelete e) s (snd (listIncidentsAttempt c teams links s))"
proof -
  obtain r s1 where r: "remote (Incidents_ListAll c teams) (IncidentsListAll teams) s = (r, s1)"
    by (metis prod.exhaust)
  then have g: "growsBy (\<lambda>e. \<not> isDelete e) s s1" by (intro growsBy_remote [OF _ r]) simp
  show ?thesis
  proof (cases r)
    case (Inl err)
    have "growsBy (\<lambda>e. \<not> isDelete e) s1 (sleep (2 * Second) s1)"
      by (intro growsBy_sleep) (simp_all add: Second_pos)
    with g Inl r show ?thesis
      by (auto simp: listIncidentsAttempt_def intro: growsBy_trans)
  next
    case (Inr resp)
    with g r show ?thesis by (simp add: listIncidentsAttempt_def)
  qed
qed

lemma extractEPs_grows:
  "growsBy (\<lambda>e. \<not> isDelete e) s (snd (extractEPsAssociatedToSchedule c sid s))"
proof -
  have "growsBy (\<lambda>e. \<not> isDelete e) s (snd (Retry (10 * Second) (getScheduleAttempt c sid) None s))"
    by (rule Retry_growsBy) (rule getScheduleAttempt_grows)
  then show ?thesis
    by (auto simp: extractEPsAssociatedToSchedule_def split: prod.splits outcome.splits option.splits)
qed

lemma listIncidents_grows:
  "growsBy (\<lambda>e. \<not> isDelete e) s (snd (listIncidentsOpenedRelatedToSchedule c sid s))"
proof -
  obtain r sv s1 where r: "Retry (10 * Second) (getScheduleAttempt c sid) None s = ((r, sv), s1)"
    by (metis prod.exhaust)
  have g: "growsBy (\<lambda>e. \<not> isDelete e) s s1"
    using Retry_growsBy [of "\<lambda>e. \<not> isDelete e" "getScheduleAttempt c sid" s "10 * Second" None]
      getScheduleAttempt_grows r by (metis snd_conv)
  show ?thesis
  proof (cases "\<exists>sched. r = Ok () \<and> sv = Some sched")
    case False
    with r g show ?thesis
      by (auto simp: listIncidentsOpenedRelatedToSchedule_def
          split: prod.splits outcome.splits option.splits)
  next
    case True
    then obtain sched where ok: "r = Ok ()" "sv = Some sched" by blast
    obtain r2 links s2 where
      r2: "Retry (10 * Second) (listIncidentsAttempt c (s_Teams sched)) [] s1 = ((r2, links), s2)"
      by (metis prod.exhaust)
    have "growsBy (\<lambda>e. \<not> isDelete e) s1 s2"
      using Retry_growsBy [of "\<lambda>e. \<not> isDelete e" "listIncidentsAttempt c (s_Teams sched)" s1
          "10 * Second" "[]"] listIncidentsAttempt_grows r2 by (metis snd_conv)
    with g have "growsBy (\<lambda>e. \<not> isDelete e) s s2" by (rule growsBy_trans)
    with r ok r2 show ?thesis
      by (cases r2) (simp_all add: listIncidentsOpenedRelatedToSchedule_def)
  qed
qed

lemma updateEPAttempt_grows:
  "growsBy (\<lambda>e. \<not> isDelete e) s (snd (updateEPAttempt c ep v s))"
proof -
  obtain r s1 where r: "remote (EscalationPolicies_Update c (ep_ID ep) ep)
      (EscalationPoliciesUpdate (ep_ID ep) ep) s = (r, s1)"
    by (metis prod.exhaust)
  then have "growsBy (\<lambda>e. \<not> isDelete e) s s1" by (intro growsBy_remote [OF _ r]) simp
  with r show ?thesis
    by (auto simp: updateEPAttempt_def split: option.splits)
qed

lemma getEPAttempt_grows:
  "growsBy (\<lambda>e. \<not> isDelete e) s (snd (getEPAttempt c epID v s))"
proof -
  obtain r s1 where r: "remote (EscalationPolicies_Get c epID) (EscalationPoliciesGet epID) s = (r, s1)"
    by (metis prod.exhaust)
  then have "growsBy (\<lambda>e. \<not> isDelete e) s s1" by (intro growsBy_remote [OF _ r]) simp
  with r show ?thesis
    by (auto simp: getEPAttempt_def split: sum.splits)
qed

lemma Retry_growsBy_result:
  assumes "\<And>v s. growsBy P s (snd (f v s))" and "Retry timeout f v s = (rv, s')"
  shows "growsBy P s s'"
  using Retry_growsBy [of P f s timeout v, OF assms(1)] assms(2) by simp

lemma removeScheduleFromEP_grows:
  "growsBy (\<lambda>e. \<not> isDelete e) s (snd (removeScheduleFromEP c scheduleID epp s))"
proof -
  have "growsBy (\<lambda>e. \<not> isDelete e) s s'"
    if "Retry (10 * Second) (updateEPAttempt c ep') () s = (rv, s')" for ep' rv s'
    using updateEPAttempt_grows that by (rule Retry_growsBy_result)
  then show ?thesis
    by (auto simp: removeScheduleFromEP_def growsBy_refl
        split: option.splits sum.splits prod.splits outcome.splits)
qed

lemma dissociate_grows:
  "growsBy (\<lambda>e. \<not> isDelete e) s (snd (dissociateScheduleFromEPs c scheduleID eps s))"
proof (induction eps arbitrary: s)
  case Nil
  show ?case by (simp add: growsBy_refl)
next
  case (Cons epID eps)
  obtain r ep found s1 where
    r: "Retry (10 * Second) (getEPAttempt c epID) (None, False) s = ((r, ep, found), s1)"
    by (metis prod.exhaust)
  have g1: "growsBy (\<lambda>e. \<not> isDelete e) s s1"
    using Retry_growsBy [of "\<lambda>e. \<not> isDelete e" "getEPAttempt c epID" s "10 * Second" "(None, False)"]
      getEPAttempt_grows r by (metis snd_conv)
  show ?case
  proof (cases "r = Ok () \<and> found")
    case False
    with r g1 Cons.IH [of s1] show ?thesis
      by (cases r) (auto simp: Let_def intro: growsBy_trans)
  next
    case True
    obtain r2 s2 where r2: "removeScheduleFromEP c scheduleID ep s1 = (r2, s2)"
      by (metis prod.exhaust)
    have "growsBy (\<lambda>e. \<not> isDelete e) s1 s2"
      using removeScheduleFromEP_grows [of s1 c scheduleID ep] r2 by simp
    with g1 have g2: "growsBy (\<lambda>e. \<not> isDelete e) s s2" by (rule growsBy_trans)
    with r True r2 Cons.IH [of s2] show ?thesis
      by (cases r2) (auto simp: Let_def intro: growsBy_trans)
  qed
qed

lemma deleteAttempt_trace:
  "\<exists>evs. trace (snd (deleteAttempt c sid eps v s)) = trace s @ SchedulesDelete sid # evs"
proof -
  obtain r s1 where r: "remote (Schedules_Delete c sid) (SchedulesDelete sid) s = (r, s1)"
    by (metis prod.exhaust)
  then have t1: "trace s1 = trace s @ [SchedulesDelete sid]"
    by (auto simp: remote_def split: prod.splits)
  obtain evs where "trace (snd (dissociateScheduleFromEPs c sid eps s1)) = trace s1 @ evs"
    using dissociate_grows [of s1 c sid eps] by (auto simp: growsBy_def)
  with t1 r show ?thesis
    by (auto simp: deleteAttempt_def split: option.splits prod.splits outcome.splits)
qed

lemma deleteAttempt_grows:
  "growsBy (\<lambda>e. True) s (snd (deleteAttempt c sid eps v s))"
proof -
  obtain r s1 where r: "remote (Schedules_Delete c sid) (SchedulesDelete sid) s = (r, s1)"
    by (metis prod.exhaust)
  then have g1: "growsBy (\<lambda>e. True) s s1" by (intro growsBy_remote [OF _ r]) simp
  have "growsBy (\<lambda>e. True) s1 (snd (dissociateScheduleFromEPs c sid eps s1))"
    by (rule growsBy_mono [OF dissociate_grows]) simp
  with g1 have "growsBy (\<lambda>e. True) s (snd (dissociateScheduleFromEPs c sid eps s1))"
    by (rule growsBy_trans)
  with g1 r show ?thesis
    by (auto simp: deleteAttempt_def split: option.splits prod.splits outcome.splits)
qed

lemma retryLoop_first:
  assumes "\<And>v s. growsBy P s (snd (f v s))"
  shows "growsBy P (snd (f v s)) (snd (retryLoop deadline n f v s))"
proof -
  obtain r v' s' where f: "f v s = ((r, v'), s')" by (metis prod.exhaust)
  have gs: "growsBy P s s'" using assms [of s v] f by simp
  show ?thesis
  proof (cases r)
    case RetryNil
    with f show ?thesis by (simp add: retryLoop_nil growsBy_refl)
  next
    case (NonRetryableError err)
    with f show ?thesis by (simp add: retryLoop_nonretryable growsBy_refl)
  next
    case (RetryPanic p)
    with f show ?thesis by (simp add: retryLoop_panic growsBy_refl)
  next
    case (RetryableError err)
    show ?thesis
    proof (cases "clock s' + retryWait n < deadline \<and> clock s < clock s' + retryWait n")
      case True
      have "growsBy P s' (s'\<lparr>clock := clock s' + retryWait n\<rparr>)"
        using retryWait_pos [of n] by (intro growsBy_clock growsBy_refl) simp
      moreover have "growsBy P (s'\<lparr>clock := clock s' + retryWait n\<rparr>)
          (snd (retryLoop deadline (Suc n) f v' (s'\<lparr>clock := clock s' + retryWait n\<rparr>)))"
        using assms by (rule retryLoop_growsBy)
      ultimately show ?thesis
        using f RetryableError True by (simp add: retryLoop_again growsBy_trans)
    next
      case False
      have "growsBy P s' (s'\<lparr>clock := max (clock s') deadline\<rparr>)"
        by (intro growsBy_clock growsBy_refl) simp
      with f RetryableError False show ?thesis by (simp add: retryLoop_timeout)
    qed
  qed
qed

subsection \<open>A delete blocked by open incidents\<close>

lemma urlLinksLoop_concat:
  "urlLinksLoop links acc = acc @ concat (map (\<lambda>u. CHR 0x0A # u) links)"
  by (induction links arbitrary: acc) auto

lemma openIncidentsMessage_enumerates:
  assumes "u \<in> set links"
  shows "\<exists>pre post. openIncidentsMessage sid links = pre @ u @ post"
proof -
  from assms obtain xs ys where "links = xs @ u # ys" by (auto simp: in_set_conv_decomp)
  then have "urlLinksLoop links [] =
      (concat (map (\<lambda>u. CHR 0x0A # u) xs) @ [CHR 0x0A]) @ u @ concat (map (\<lambda>u. CHR 0x0A # u) ys)"
    by (simp add: urlLinksLoop_concat)
  then show ?thesis
    unfolding openIncidentsMessage_def
    by (metis append.assoc)
qed

text \<open>
  C4. When the scan of a delete finds open incidents (the list of their links is not
  empty), the delete returns the error whose message holds the link of every incident found,
  in the state the scan left: from the start of the delete to its end the trace has grown by
  events none of which is a delete call of the remote service.
\<close>

theorem delete_blocked_by_open_incidents:
  assumes "extractEPsAssociatedToSchedule c (d_Id d) st = (Ok eps, st1)"
    and "listIncidentsOpenedRelatedToSchedule c (d_Id d) st1 = (Ok links, st2)"
    and "links \<noteq> []"
  shows "resourcePagerDutyScheduleDelete c d st =
           ((Err (Errorf (openIncidentsMessage (d_Id d) links)), d), st2) \<and>
         (\<forall>u\<in>set links. \<exists>pre post. openIncidentsMessage (d_Id d) links = pre @ u @ post) \<and>
         (\<exists>evs. trace st2 = trace st @ evs \<and> (\<forall>e\<in>set evs. \<not> isDelete e))"
proof -
  have a: "resourcePagerDutyScheduleDelete c d st =
           ((Err (Errorf (openIncidentsMessage (d_Id d) links)), d), st2)"
    using assms by (simp add: resourcePagerDutyScheduleDelete_def Let_def)
  have "growsBy (\<lambda>e. \<not> isDelete e) st st1"
    using extractEPs_grows [of st c "d_Id d"] assms(1) by simp
  moreover have "growsBy (\<lambda>e. \<not> isDelete e) st1 st2"
    using listIncidents_grows [of st1 c "d_Id d"] assms(2) by simp
  ultimately have "growsBy (\<lambda>e. \<not> isDelete e) st st2" by (rule growsBy_trans)
  then have c: "\<exists>evs. trace st2 = trace st @ evs \<and> (\<forall>e\<in>set evs. \<not> isDelete e)"
    by (auto simp: growsBy_def list_all_iff)
  from a c openIncidentsMessage_enumerates show ?thesis by blast
qed

theorem delete_blocked_by_open_incidents_witness:
  "resourcePagerDutyScheduleDelete incidentClient sampleData sampleState =
     ((Err (Errorf (openIncidentsMessage ''PSCHED1''
                      [''https://acme.pagerduty.com/incidents/PINC001''])), sampleData),
      sampleState\<lparr>world := 3,
        trace := [SchedulesGet ''PSCHED1'', SchedulesGet ''PSCHED1'',
                  IncidentsListAll [''PTEAM01'']]\<rparr>)"
proof -
  have i: "d_Id sampleData = ''PSCHED1''" by (simp add: sampleData_def)
  have a: "extractEPsAssociatedToSchedule incidentClient (d_Id sampleData) sampleState
   = (Ok [''PEP0001''], sampleState\<lparr>world := 1, trace := [SchedulesGet ''PSCHED1'']\<rparr>)"
    unfolding i
    by (simp add: extractEPsAssociatedToSchedule_def Retry_def retryLoop.simps
      getScheduleAttempt_def remote_def incidentClient_def mkClient_def sampleState_def
      sampleSchedule_def)
  have b: "listIncidentsOpenedRelatedToSchedule incidentClient (d_Id sampleData)
     (sampleState\<lparr>world := 1, trace := [SchedulesGet ''PSCHED1'']\<rparr>)
   = (Ok [''https://acme.pagerduty.com/incidents/PINC001''],
      sampleState\<lparr>world := 3,
        trace := [SchedulesGet ''PSCHED1'', SchedulesGet ''PSCHED1'',
                  IncidentsListAll [''PTEAM01'']]\<rparr>)"
    unfolding i
    by (simp add: listIncidentsOpenedRelatedToSchedule_def Retry_def retryLoop.simps
      getScheduleAttempt_def listIncidentsAttempt_def remote_def incidentClient_def mkClient_def
      sampleState_def sampleSchedule_def sampleIncident_def)
  have c: "[''https://acme.pagerduty.com/incidents/PINC001''] \<noteq> []" by simp
  from delete_blocked_by_open_incidents [OF a b c] show ?thesis by (simp add: i)
qed

subsection \<open>The discarded error of the incident listing\<close>

lemma listIncidentsAttempt_failing:
  assumes "\<forall>teams w. \<exists>e w'. Incidents_ListAll c teams w = (Inl e, w')"
  shows "\<exists>e s'. listIncidentsAttempt c teams v s = ((RetryableError e, v), s') \<and>
           clock s \<le> clock s' \<and> clock s' \<le> clock s + 2 * Second \<and> True"
proof -
  from assms obtain e w' where "Incidents_ListAll c teams (world s) = (Inl e, w')" by blast
  then show ?thesis
    by (simp add: listIncidentsAttempt_def remote_def sleep_def Second_def)
qed

lemma Retry_trace_first:
  assumes "\<And>v s. growsBy P s (snd (f v s))"
  shows "\<exists>evs. trace (snd (Retry timeout f v s)) = trace (snd (f v s)) @ evs"
  using retryLoop_first [of P f v s "clock s + timeout" 0, OF assms]
  by (auto simp: Retry_def growsBy_def)

lemma delete_trace_after_scan:
  assumes "extractEPsAssociatedToSchedule c (d_Id d) st0 = (Ok eps, st)"
    and "listIncidentsOpenedRelatedToSchedule c (d_Id d) st = (Ok [], st2)"
  shows "\<exists>evs. trace (snd (resourcePagerDutyScheduleDelete c d st0))
           = trace st2 @ SchedulesDelete (d_Id d) # evs"
proof -
  let ?f = "deleteAttempt c (d_Id d) eps"
  obtain r u st3 where r: "Retry (2 * Minute) ?f () st2 = ((r, u), st3)"
    by (metis prod.exhaust)
  obtain evs1 where e1: "trace (snd (?f () st2)) = trace st2 @ SchedulesDelete (d_Id d) # evs1"
    using deleteAttempt_trace by blast
  obtain evs2 where "trace (snd (Retry (2 * Minute) ?f () st2)) = trace (snd (?f () st2)) @ evs2"
    using Retry_trace_first [of "\<lambda>e. True" ?f] deleteAttempt_grows by blast
  with r e1 have t3: "trace st3 = trace st2 @ SchedulesDelete (d_Id d) # (evs1 @ evs2)" by simp
  show ?thesis
    using assms r t3
    by (cases r) (simp_all add: resourcePagerDutyScheduleDelete_def Let_def sleep_def)
qed

text \<open>
  C9. When the schedule fetch of the incident scan succeeds and every listing of incidents
  fails, \<^verbatim>\<open>listIncidentsOpenedRelatedToSchedule\<close> returns the empty list and no error, once
  the 10 seconds of its second retry loop have passed; a delete whose scan of the escalation
  policies succeeded then goes on to the remote delete call, which is the first event after
  the scan.
\<close>

theorem incident_listing_error_discarded:
  assumes "Retry (10 * Second) (getScheduleAttempt c sid) None st = ((Ok (), Some sched), st1)"
    and "\<forall>teams w. \<exists>e w'. Incidents_ListAll c teams w = (Inl e, w')"
  shows "\<exists>st2. listIncidentsOpenedRelatedToSchedule c sid st = (Ok [], st2) \<and>
           clock st1 + 10 * Second \<le> clock st2 \<and>
           (\<forall>d eps st0. d_Id d = sid \<and> extractEPsAssociatedToSchedule c sid st0 = (Ok eps, st) \<longrightarrow>
              (\<exists>evs. trace (snd (resourcePagerDutyScheduleDelete c d st0))
                       = trace st2 @ SchedulesDelete sid # evs))"
proof -
  obtain e st2 where
    r2: "Retry (10 * Second) (listIncidentsAttempt c (s_Teams sched)) [] st1 = ((Err e, []), st2)"
    and c2: "clock st1 + 10 * Second \<le> clock st2"
    using Retry_retryable [where f = "listIncidentsAttempt c (s_Teams sched)" and v = "[]"
        and \<delta> = "2 * Second" and R = "\<lambda>e w. True" and timeout = "10 * Second" and s = st1]
      listIncidentsAttempt_failing [OF assms(2)] Second_pos
    by blast
  have l: "listIncidentsOpenedRelatedToSchedule c sid st = (Ok [], st2)"
    using assms(1) r2 by (simp add: listIncidentsOpenedRelatedToSchedule_def)
  have "\<exists>evs. trace (snd (resourcePagerDutyScheduleDelete c d st0))
                       = trace st2 @ SchedulesDelete sid # evs"
    if "d_Id d = sid" "extractEPsAssociatedToSchedule c sid st0 = (Ok eps, st)" for d eps st0
    using delete_trace_after_scan [of c d st0 eps st st2] that l by simp
  with l c2 show ?thesis by blast
qed

theorem incident_listing_error_discarded_witness:
  "fst (listIncidentsOpenedRelatedToSchedule listingDownClient ''PSCHED1''
          (sampleState\<lparr>world := 1, trace := [SchedulesGet ''PSCHED1'']\<rparr>)) = Ok [] \<and>
   list_ex isDelete
     (trace (snd (resourcePagerDutyScheduleDelete listingDownClient sampleData sampleState)))"
proof -
  let ?st = "sampleState\<lparr>world := 1, trace := [SchedulesGet ''PSCHED1'']\<rparr>"
  let ?st1 = "sampleState\<lparr>world := 2, trace := [SchedulesGet ''PSCHED1'', SchedulesGet ''PSCHED1'']\<rparr>"
  have a: "Retry (10 * Second) (getScheduleAttempt listingDownClient ''PSCHED1'') None ?st
             = ((Ok (), Some (sampleSchedule None)), ?st1)"
    by (simp add: Retry_def retryLoop.simps getScheduleAttempt_def remote_def listingDownClient_def
        mkClient_def sampleState_def)
  have b: "\<forall>teams w. \<exists>e w'. Incidents_ListAll listingDownClient teams w = (Inl e, w')"
    by (simp add: listingDownClient_def mkClient_def)
  have e: "extractEPsAssociatedToSchedule listingDownClient ''PSCHED1'' sampleState
             = (Ok [''PEP0001''], ?st)"
    by (simp add: extractEPsAssociatedToSchedule_def Retry_def retryLoop.simps
        getScheduleAttempt_def remote_def listingDownClient_def mkClient_def sampleState_def
        sampleSchedule_def)
  have i: "d_Id sampleData = ''PSCHED1''" by (simp add: sampleData_def)
  from incident_listing_error_discarded [OF a b] obtain st2 where
    l: "listIncidentsOpenedRelatedToSchedule listingDownClient ''PSCHED1'' ?st = (Ok [], st2)"
    and d: "\<forall>d eps st0. d_Id d = ''PSCHED1'' \<and>
              extractEPsAssociatedToSchedule listingDownClient ''PSCHED1'' st0 = (Ok eps, ?st) \<longrightarrow>
              (\<exists>evs. trace (snd (resourcePagerDutyScheduleDelete listingDownClient d st0))
                       = trace st2 @ SchedulesDelete ''PSCHED1'' # evs)"
    by blast
  from d i e obtain evs where
    "trace (snd (resourcePagerDutyScheduleDelete listingDownClient sampleData sampleState))
       = trace st2 @ SchedulesDelete ''PSCHED1'' # evs" by blast
  then have "list_ex isDelete
      (trace (snd (resourcePagerDutyScheduleDelete listingDownClient sampleData sampleState)))"
    by (simp add: list_ex_iff)
  with l show ?thesis by simp
qed

subsection \<open>The failures of the remote delete\<close>

lemma usedByEscalationPolicies_iff:
  "usedByEscalationPolicies err \<longleftrightarrow>
     (\<exists>code errs. err = PDError code errs \<and>
        sprintv errs = ''[Schedule can't be deleted if it's being used by escalation policies]'')"
  by (cases err) (simp_all add: usedByEscalationPolicies_def)

lemma isErrCode_iff: "isErrCode err code \<longleftrightarrow> (\<exists>errs. err = PDError code errs)"
  by (cases err) (auto simp: isErrCode_def)

text \<open>
  The dispatch of the closure on a failure \<open>err\<close> of the remote delete call: when its
  status is not 400 the attempt ends in a retryable error; when its status is 400 and its
  payload does not render as the message of a schedule in use, the loop ends at once with
  \<open>err\<close>, after that one call; when it does, the escalation policies are dissociated, and
  the attempt ends in a retryable error (\<open>err\<close>, or \<open>err\<close> with the error of the
  dissociation) when the dissociation returns, and in the panic of the dissociation when it
  panics. After a retryable error, while the deadline allows another wait, the loop goes on,
  and its next attempt starts with the remote delete call.
\<close>

lemma deleteAttempt_dispatch:
  assumes "Schedules_Delete c sid (world st) = (Some err, w1)"
  shows
    "(\<not> isErrCode err 400 \<longrightarrow>
        deleteAttempt c sid eps () st =
          ((RetryableError err, ()), st\<lparr>world := w1, trace := trace st @ [SchedulesDelete sid]\<rparr>)) \<and>
     (isErrCode err 400 \<and> \<not> usedByEscalationPolicies err \<longrightarrow>
        retryLoop deadline n (deleteAttempt c sid eps) () st =
          ((Err err, ()), st\<lparr>world := w1, trace := trace st @ [SchedulesDelete sid]\<rparr>)) \<and>
     (isErrCode err 400 \<and> usedByEscalationPolicies err \<longrightarrow>
        (case dissociateScheduleFromEPs c sid eps
                (st\<lparr>world := w1, trace := trace st @ [SchedulesDelete sid]\<rparr>) of
           (Ok u, st2) \<Rightarrow> deleteAttempt c sid eps () st = ((RetryableError err, ()), st2)
         | (Err workaroundErr, st2) \<Rightarrow>
             deleteAttempt c sid eps () st = ((RetryableError (Wrap err workaroundErr), ()), st2)
         | (Panicked p, st2) \<Rightarrow> deleteAttempt c sid eps () st = ((RetryPanic p, ()), st2))) \<and>
     (\<forall>e st'. deleteAttempt c sid eps () st = ((RetryableError e, ()), st') \<and>
               clock st' + retryWait n < deadline \<longrightarrow>
        retryLoop deadline n (deleteAttempt c sid eps) () st =
          retryLoop deadline (Suc n) (deleteAttempt c sid eps) ()
            (st'\<lparr>clock := clock st' + retryWait n\<rparr>) \<and>
        (\<exists>evs. trace (snd (deleteAttempt c sid eps () (st'\<lparr>clock := clock st' + retryWait n\<rparr>)))
                 = trace st' @ SchedulesDelete sid # evs)) \<and>
     (usedByEscalationPolicies err \<longleftrightarrow>
        (\<exists>code errs. err = PDError code errs \<and>
           sprintv errs = ''[Schedule can't be deleted if it's being used by escalation policies]''))"
proof -
  let ?st1 = "st\<lparr>world := w1, trace := trace st @ [SchedulesDelete sid]\<rparr>"
  let ?f = "deleteAttempt c sid eps"
  have r: "remote (Schedules_Delete c sid) (SchedulesDelete sid) st = (Some err, ?st1)"
    using assms by (simp add: remote_def)
  have a: "\<not> isErrCode err 400 \<longrightarrow> ?f () st = ((RetryableError err, ()), ?st1)"
    using r by (simp add: deleteAttempt_def)
  have "isErrCode err 400 \<and> \<not> usedByEscalationPolicies err \<longrightarrow>
          ?f () st = ((NonRetryableError err, ()), ?st1)"
    using r by (simp add: deleteAttempt_def)
  then have b: "isErrCode err 400 \<and> \<not> usedByEscalationPolicies err \<longrightarrow>
        retryLoop deadline n ?f () st = ((Err err, ()), ?st1)"
    by (simp add: retryLoop_nonretryable)
  have c: "isErrCode err 400 \<and> usedByEscalationPolicies err \<longrightarrow>
        (case dissociateScheduleFromEPs c sid eps ?st1 of
           (Ok u, st2) \<Rightarrow> ?f () st = ((RetryableError err, ()), st2)
         | (Err workaroundErr, st2) \<Rightarrow>
             ?f () st = ((RetryableError (Wrap err workaroundErr), ()), st2)
         | (Panicked p, st2) \<Rightarrow> ?f () st = ((RetryPanic p, ()), st2))"
    using r by (simp add: deleteAttempt_def split: prod.splits outcome.splits)
  have d: "retryLoop deadline n ?f () st =
          retryLoop deadline (Suc n) ?f () (st'\<lparr>clock := clock st' + retryWait n\<rparr>) \<and>
        (\<exists>evs. trace (snd (?f () (st'\<lparr>clock := clock st' + retryWait n\<rparr>)))
                 = trace st' @ SchedulesDelete sid # evs)"
    if h: "?f () st = ((RetryableError e, ()), st')" "clock st' + retryWait n < deadline"
    for e st'
  proof -
    have "clock st \<le> clock st'"
      using deleteAttempt_grows [of st c sid eps "()"] h(1) by (simp add: growsBy_def)
    with retryWait_pos [of n] have "clock st < clock st' + retryWait n" by simp
    with h have "retryLoop deadline n ?f () st =
          retryLoop deadline (Suc n) ?f () (st'\<lparr>clock := clock st' + retryWait n\<rparr>)"
      by (intro retryLoop_again) simp_all
    moreover have "\<exists>evs. trace (snd (?f () (st'\<lparr>clock := clock st' + retryWait n\<rparr>)))
                 = trace st' @ SchedulesDelete sid # evs"
      using deleteAttempt_trace [of c sid eps "()" "st'\<lparr>clock := clock st' + retryWait n\<rparr>"]
      by simp
    ultimately show ?thesis by blast
  qed
  from a b c d usedByEscalationPolicies_iff show ?thesis by blast
qed


lemma deleteAttempt_dispatch_sample:
  "deleteAttempt downClient ''PSCHED1'' [''PEP0001''] () sampleState =
     ((RetryableError unavailable, ()),
      sampleState\<lparr>world := 1, trace := [SchedulesDelete ''PSCHED1'']\<rparr>) \<and>
   retryLoop (clock sampleState + 2 * Minute) 0
       (deleteAttempt invalidClient ''PSCHED1'' [''PEP0001'']) () sampleState =
     ((Err invalidInput, ()),
      sampleState\<lparr>world := 1, trace := [SchedulesDelete ''PSCHED1'']\<rparr>) \<and>
   deleteAttempt inUseClient ''PSCHED1'' [''PEP0001''] () sampleState =
     ((RetryableError inUse, ()),
      sampleState\<lparr>world := 2,
        trace := [SchedulesDelete ''PSCHED1'', EscalationPoliciesGet ''PEP0001'']\<rparr>) \<and>
   retryLoop (clock sampleState + 2 * Minute) 0
       (deleteAttempt inUseClient ''PSCHED1'' [''PEP0001'']) () sampleState =
     retryLoop (clock sampleState + 2 * Minute) 1
       (deleteAttempt inUseClient ''PSCHED1'' [''PEP0001'']) ()
       (sampleState\<lparr>world := 2,
          trace := [SchedulesDelete ''PSCHED1'', EscalationPoliciesGet ''PEP0001''],
          clock := clock sampleState + retryWait 0\<rparr>)"
proof -
  have d1: "Schedules_Delete downClient ''PSCHED1'' (world sampleState) = (Some unavailable, 1)"
    by (simp add: downClient_def mkClient_def sampleState_def)
  have d2: "Schedules_Delete invalidClient ''PSCHED1'' (world sampleState) = (Some invalidInput, 1)"
    by (simp add: invalidClient_def mkClient_def sampleState_def)
  have d3: "Schedules_Delete inUseClient ''PSCHED1'' (world sampleState) = (Some inUse, 1)"
    by (simp add: inUseClient_def mkClient_def sampleState_def)
  have e1: "\<not> isErrCode unavailable 400" by (simp add: isErrCode_def unavailable_def)
  have e2: "isErrCode invalidInput 400 \<and> \<not> usedByEscalationPolicies invalidInput"
    by (simp add: isErrCode_def usedByEscalationPolicies_def invalidInput_def sprintv_def)
  have e3: "isErrCode inUse 400 \<and> usedByEscalationPolicies inUse"
    by (simp add: isErrCode_def usedByEscalationPolicies_def inUse_def sprintv_def)
  have g: "dissociateScheduleFromEPs inUseClient ''PSCHED1'' [''PEP0001'']
             (sampleState\<lparr>world := 1, trace := trace sampleState @ [SchedulesDelete ''PSCHED1'']\<rparr>)
           = (Ok (), sampleState\<lparr>world := 2,
                trace := [SchedulesDelete ''PSCHED1'', EscalationPoliciesGet ''PEP0001'']\<rparr>)"
    by (simp add: Let_def Retry_def retryLoop.simps getEPAttempt_def remote_def inUseClient_def
        mkClient_def sampleState_def isErrCode_def notFound_def)
  have a: "deleteAttempt downClient ''PSCHED1'' [''PEP0001''] () sampleState =
     ((RetryableError unavailable, ()),
      sampleState\<lparr>world := 1, trace := [SchedulesDelete ''PSCHED1'']\<rparr>)"
    using deleteAttempt_dispatch [OF d1, of "[''PEP0001'']" 0 0] e1
    by (simp add: sampleState_def)
  have b: "retryLoop (clock sampleState + 2 * Minute) 0
       (deleteAttempt invalidClient ''PSCHED1'' [''PEP0001'']) () sampleState =
     ((Err invalidInput, ()),
      sampleState\<lparr>world := 1, trace := [SchedulesDelete ''PSCHED1'']\<rparr>)"
    using deleteAttempt_dispatch [OF d2, of "[''PEP0001'']" "clock sampleState + 2 * Minute" 0] e2
    by (simp add: sampleState_def)
  have c: "deleteAttempt inUseClient ''PSCHED1'' [''PEP0001''] () sampleState =
     ((RetryableError inUse, ()),
      sampleState\<lparr>world := 2,
        trace := [SchedulesDelete ''PSCHED1'', EscalationPoliciesGet ''PEP0001'']\<rparr>)"
    using deleteAttempt_dispatch [OF d3, of "[''PEP0001'']" "clock sampleState + 2 * Minute" 0]
      e3 g
    by simp
  have w: "clock (sampleState\<lparr>world := 2,
        trace := [SchedulesDelete ''PSCHED1'', EscalationPoliciesGet ''PEP0001'']\<rparr>) + retryWait 0
      < clock sampleState + 2 * Minute"
    by (simp add: retryWait_def Minute_def Second_def)
  have d: "retryLoop (clock sampleState + 2 * Minute) 0
       (deleteAttempt inUseClient ''PSCHED1'' [''PEP0001'']) () sampleState =
     retryLoop (clock sampleState + 2 * Minute) 1
       (deleteAttempt inUseClient ''PSCHED1'' [''PEP0001'']) ()
       (sampleState\<lparr>world := 2,
          trace := [SchedulesDelete ''PSCHED1'', EscalationPoliciesGet ''PEP0001''],
          clock := clock sampleState + retryWait 0\<rparr>)"
    using deleteAttempt_dispatch [OF d3, of "[''PEP0001'']" "clock sampleState + 2 * Minute" 0]
      c w
    by simp
  from a b c d show ?thesis by simp
qed

text \<open>
  C3. A 400 of a schedule in use is to be followed by the dissociation and then by a retry of
  the delete. Where the escalation policy has two consecutive rules whose only target is the
  schedule, it is not: the remote delete fails with that 400, the closure runs the
  dissociation, \<^verbatim>\<open>removeScheduleFromEP\<close> panics while it removes the second rule, the
  closure never returns its retryable error, and the delete ends in the panic after a single
  remote delete call, with the policy not written back.
\<close>

theorem delete_in_use_dissociation_panics:
  "Schedules_Delete (policyClient (samplePolicy [sampleRule ''R1'' [tS], sampleRule ''R2'' [tS]]))
      ''PSCHED1'' 0 = (Some inUse, 1) \<and>
   isErrCode inUse 400 \<and> usedByEscalationPolicies inUse \<and>
   deleteAttempt (policyClient (samplePolicy [sampleRule ''R1'' [tS], sampleRule ''R2'' [tS]]))
      ''PSCHED1'' [''PEP0001''] () sampleState =
     ((RetryPanic SliceBoundsOutOfRange, ()),
      sampleState\<lparr>world := 2,
        trace := [SchedulesDelete ''PSCHED1'', EscalationPoliciesGet ''PEP0001'']\<rparr>) \<and>
   resourcePagerDutyScheduleDelete
      (policyClient (samplePolicy [sampleRule ''R1'' [tS], sampleRule ''R2'' [tS]]))
      sampleData sampleState =
     ((Panicked SliceBoundsOutOfRange, sampleData),
      sampleState\<lparr>world := 5,
        trace := [SchedulesGet ''PSCHED1'', SchedulesGet ''PSCHED1'',
                  IncidentsListAll [''PTEAM01''], SchedulesDelete ''PSCHED1'',
                  EscalationPoliciesGet ''PEP0001'']\<rparr>)"
proof -
  let ?c = "policyClient (samplePolicy [sampleRule ''R1'' [tS], sampleRule ''R2'' [tS]])"
  have upt: "[0..<2] = [0, 1]" by (simp add: upt_rec)
  have two: "removeScheduleLoops ''PSCHED1''
      (samplePolicy [sampleRule ''R1'' [tS], sampleRule ''R2'' [tS]]) = Inl SliceBoundsOutOfRange"
    by (simp add: removeScheduleLoops_def samplePolicy_def sampleRule_def tS_def sliceOf_def
        removeAt_def Let_def upt)
  have a: "Schedules_Delete ?c ''PSCHED1'' 0 = (Some inUse, 1)"
    by (simp add: policyClient_def mkClient_def)
  have b: "isErrCode inUse 400 \<and> usedByEscalationPolicies inUse"
    by (simp add: isErrCode_def usedByEscalationPolicies_def inUse_def sprintv_def)
  have c: "deleteAttempt ?c ''PSCHED1'' [''PEP0001''] () sampleState =
     ((RetryPanic SliceBoundsOutOfRange, ()),
      sampleState\<lparr>world := 2,
        trace := [SchedulesDelete ''PSCHED1'', EscalationPoliciesGet ''PEP0001'']\<rparr>)"
    using b
    by (simp add: deleteAttempt_def Let_def Retry_def retryLoop.simps getEPAttempt_def remote_def
        policyClient_def mkClient_def removeScheduleFromEP_def two sampleState_def)
  have d: "resourcePagerDutyScheduleDelete ?c sampleData sampleState =
     ((Panicked SliceBoundsOutOfRange, sampleData),
      sampleState\<lparr>world := 5,
        trace := [SchedulesGet ''PSCHED1'', SchedulesGet ''PSCHED1'',
                  IncidentsListAll [''PTEAM01''], SchedulesDelete ''PSCHED1'',
                  EscalationPoliciesGet ''PEP0001'']\<rparr>)"
    using b
    by (simp add: resourcePagerDutyScheduleDelete_def extractEPsAssociatedToSchedule_def
        listIncidentsOpenedRelatedToSchedule_def getScheduleAttempt_def listIncidentsAttempt_def
        deleteAttempt_def Let_def Retry_def retryLoop.simps getEPAttempt_def remote_def
        policyClient_def mkClient_def removeScheduleFromEP_def two sampleState_def sampleData_def
        sampleSchedule_def)
  from a b c d show ?thesis by (intro conjI) simp_all
qed

subsection \<open>The final schedule of a read\<close>

text \<open>
  C10, as the code has it. \<^verbatim>\<open>flattenScheFinalSchedule\<close> gives a list of one element for
  every final schedule that is not nil, and panics on nil: it returns exactly when its
  argument is not nil. The read flattens the layers first: a read whose response carries no
  final schedule ends in that panic, and not in an error, when its layers flatten without
  error, and returns the error of the layers when the end of a layer does not parse.
\<close>

theorem final_schedule_nil_dereference:
  "(\<forall>f. \<exists>elem. flattenScheFinalSchedule L (Some f) = Inr [elem]) \<and>
   (\<forall>res. flattenScheFinalSchedule L finalSche = Inr res \<longrightarrow> length res = 1 \<and> finalSche \<noteq> None) \<and>
   flattenScheFinalSchedule L None = Inl NilPointerDereference \<and>
   (\<forall>schedule w1 layers.
      Schedules_Get c (d_Id d) (world st) = (Inr (Some schedule), w1) \<and>
      s_FinalSchedule schedule = None \<and>
      flattenScheduleLayers L (clock st) (s_ScheduleLayers schedule) = Inr layers \<longrightarrow>
        fst (fst (resourcePagerDutyScheduleRead L c d st)) = Panicked NilPointerDereference) \<and>
   (\<forall>schedule w1 err.
      Schedules_Get c (d_Id d) (world st) = (Inr (Some schedule), w1) \<and>
      flattenScheduleLayers L (clock st) (s_ScheduleLayers schedule) = Inl err \<longrightarrow>
        fst (fst (resourcePagerDutyScheduleRead L c d st)) = Err err)"
proof -
  have a: "\<forall>f. \<exists>elem. flattenScheFinalSchedule L (Some f) = Inr [elem]"
    by (simp add: flattenScheFinalSchedule_def)
  have b: "\<forall>res. flattenScheFinalSchedule L finalSche = Inr res \<longrightarrow>
             length res = 1 \<and> finalSche \<noteq> None"
    by (auto simp: flattenScheFinalSchedule_def split: option.splits)
  have c: "flattenScheFinalSchedule L None = Inl NilPointerDereference"
    by (simp add: flattenScheFinalSchedule_def)
  have d: "fst (fst (resourcePagerDutyScheduleRead L c d st)) = Panicked NilPointerDereference"
    if h: "Schedules_Get c (d_Id d) (world st) = (Inr (Some schedule), w1)"
      "s_FinalSchedule schedule = None"
      "flattenScheduleLayers L (clock st) (s_ScheduleLayers schedule) = Inr layers"
    for schedule w1 layers
  proof -
    have "\<exists>d' st'. readAttempt L c d st = ((RetryPanic NilPointerDereference, d'), st')"
      using h by (simp add: readAttempt_def remote_def c)
    then obtain d' st' where "readAttempt L c d st = ((RetryPanic NilPointerDereference, d'), st')"
      by blast
    then have "Retry (30 * Second) (readAttempt L c) d st = ((Panicked NilPointerDereference, d'), st')"
      by (simp add: Retry_def retryLoop_panic)
    then show ?thesis by (simp add: resourcePagerDutyScheduleRead_def)
  qed
  have e: "fst (fst (resourcePagerDutyScheduleRead L c d st)) = Err err"
    if h: "Schedules_Get c (d_Id d) (world st) = (Inr (Some schedule), w1)"
      "flattenScheduleLayers L (clock st) (s_ScheduleLayers schedule) = Inl err"
    for schedule w1 err
  proof -
    have "\<exists>d' st'. readAttempt L c d st = ((NonRetryableError err, d'), st')"
      using h by (simp add: readAttempt_def remote_def)
    then obtain d' st' where "readAttempt L c d st = ((NonRetryableError err, d'), st')"
      by blast
    then have "Retry (30 * Second) (readAttempt L c) d st = ((Err err, d'), st')"
      by (simp add: Retry_def retryLoop_nonretryable)
    then show ?thesis by (simp add: resourcePagerDutyScheduleRead_def)
  qed
  have d': "\<forall>schedule w1 layers.
      Schedules_Get c (d_Id d) (world st) = (Inr (Some schedule), w1) \<and>
      s_FinalSchedule schedule = None \<and>
      flattenScheduleLayers L (clock st) (s_ScheduleLayers schedule) = Inr layers \<longrightarrow>
        fst (fst (resourcePagerDutyScheduleRead L c d st)) = Panicked NilPointerDereference"
    using d by blast
  have e': "\<forall>schedule w1 err.
      Schedules_Get c (d_Id d) (world st) = (Inr (Some schedule), w1) \<and>
      flattenScheduleLayers L (clock st) (s_ScheduleLayers schedule) = Inl err \<longrightarrow>
        fst (fst (resourcePagerDutyScheduleRead L c d st)) = Err err"
    using e by blast
  show ?thesis using a b c d' e' by (intro conjI)
qed

theorem final_schedule_nil_dereference_witness:
  "fst (fst (resourcePagerDutyScheduleRead sampleLib (finalClient None) sampleData sampleState))
     = Panicked NilPointerDereference \<and>
   flattenScheduleLayers sampleLib (clock sampleState) (s_ScheduleLayers badEndSchedule)
     = Inl (ParseError ''yesterday'') \<and>
   fst (fst (resourcePagerDutyScheduleRead sampleLib badEndClient sampleData sampleState))
     = Err (ParseError ''yesterday'') \<and>
   flattenScheFinalSchedule sampleLib None = Inl NilPointerDereference \<and>
   map (\<lambda>m. m ''name'')
     (projr (flattenScheFinalSchedule sampleLib
        (Some \<lparr>ss_Name = ''Final Schedule'', ss_RenderedCoveragePercentage = 1\<rparr>)))
     = [Some (LStr ''Final Schedule'')]"
proof -
  have g: "Schedules_Get (finalClient None) (d_Id sampleData) (world sampleState)
             = (Inr (Some (sampleSchedule None)), 1)"
    by (simp add: finalClient_def mkClient_def sampleState_def)
  have n: "s_FinalSchedule (sampleSchedule None) = None" by (simp add: sampleSchedule_def)
  have l: "flattenScheduleLayers sampleLib (clock sampleState) (s_ScheduleLayers (sampleSchedule None))
             = Inr [flattenLayer sampleLib (remoteLayer ''POPEN'' None []) []]"
    by (simp add: flattenScheduleLayers_def sampleSchedule_def remoteLayer_def
        stringPtrToStringType_def)
  have g': "Schedules_Get badEndClient (d_Id sampleData) (world sampleState)
             = (Inr (Some badEndSchedule), 1)"
    by (simp add: badEndClient_def mkClient_def sampleState_def)
  have l': "flattenScheduleLayers sampleLib (clock sampleState) (s_ScheduleLayers badEndSchedule)
             = Inl (ParseError ''yesterday'')"
    by (simp add: flattenScheduleLayers_def badEndSchedule_def remoteLayer_def
        stringPtrToStringType_def timeToUTC_def sampleLib_def)
  from final_schedule_nil_dereference [of sampleLib None "finalClient None" sampleData sampleState]
    g n l
  have p: "fst (fst (resourcePagerDutyScheduleRead sampleLib (finalClient None) sampleData sampleState))
     = Panicked NilPointerDereference \<and>
   flattenScheFinalSchedule sampleLib None = Inl NilPointerDereference"
    by blast
  from final_schedule_nil_dereference [of sampleLib None badEndClient sampleData sampleState]
    g' l'
  have q: "fst (fst (resourcePagerDutyScheduleRead sampleLib badEndClient sampleData sampleState))
     = Err (ParseError ''yesterday'')"
    by blast
  from p q l' show ?thesis by (simp add: flattenScheFinalSchedule_def)
qed

text \<open>
  The claim as stated fails on a response without final schedule in which the end of a layer
  does not parse: the read returns the error of the layers, and the final schedule is never
  dereferenced.
\<close>

theorem final_schedule_nil_dereference_counterexample:
  "Schedules_Get badEndClient ''PSCHED1'' 0 = (Inr (Some badEndSchedule), 1) \<and>
   s_FinalSchedule badEndSchedule = None \<and>
   resourcePagerDutyScheduleRead sampleLib badEndClient sampleData sampleState =
     ((Err (ParseError ''yesterday''),
       sampleData\<lparr>d_name := ''Primary'', d_time_zone := ''Europe/Berlin'',
                   d_description := ''Managed by Terraform''\<rparr>),
      \<lparr>world = 1, clock = clock sampleState + 2 * Second,
       trace = [SchedulesGet ''PSCHED1'', Sleep (2 * Second)]\<rparr>)"
  by (simp add: resourcePagerDutyScheduleRead_def Retry_def retryLoop.simps readAttempt_def
      remote_def sleep_def badEndClient_def badEndSchedule_def mkClient_def sampleData_def
      sampleState_def flattenScheduleLayers_def remoteLayer_def stringPtrToStringType_def
      timeToUTC_def sampleLib_def Second_def)

subsection \<open>The deadlines of the retry loops\<close>



















subsection \<open>Removing a schedule from an escalation policy\<close>

text \<open>
  C5 at a policy whose two rules each have the schedule as their only target: the second
  removal slices \<^verbatim>\<open>epr\<close>, which now has one element, at index 2, and the loops panic; so
  does the dissociation that fetched such a policy. With a third rule that targets a user
  the loops end, and the second rule still refers to the schedule in the policy to write
  back. A policy whose only rule has the schedule as its only target loses the rule.
\<close>

theorem removeScheduleFromEP_consecutive_rules:
  "removeScheduleLoops ''PSCHED1''
      (samplePolicy [sampleRule ''R1'' [tS], sampleRule ''R2'' [tS]]) = Inl SliceBoundsOutOfRange \<and>
   fst (dissociateScheduleFromEPs
          (policyClient (samplePolicy [sampleRule ''R1'' [tS], sampleRule ''R2'' [tS]]))
          ''PSCHED1'' [''PEP0001''] sampleState) = Panicked SliceBoundsOutOfRange \<and>
   removeScheduleLoops ''PSCHED1''
      (samplePolicy [sampleRule ''R1'' [tS], sampleRule ''R2'' [tS], sampleRule ''R3'' [tU]])
    = Inr (True, samplePolicy [sampleRule ''R2'' [tS], sampleRule ''R3'' [tU]]) \<and>
   removeScheduleLoops ''PSCHED1'' (samplePolicy [sampleRule ''R1'' [tS]])
    = Inr (True, samplePolicy [])"
proof -
  have upt: "[0..<2] = [0, 1]" "[0..<3] = [0, 1, 2]"
    by (simp_all add: upt_rec)
  have two: "removeScheduleLoops ''PSCHED1''
      (samplePolicy [sampleRule ''R1'' [tS], sampleRule ''R2'' [tS]]) = Inl SliceBoundsOutOfRange"
    by (simp add: removeScheduleLoops_def samplePolicy_def sampleRule_def tS_def sliceOf_def
        removeAt_def Let_def upt)
  have dis: "fst (dissociateScheduleFromEPs
          (policyClient (samplePolicy [sampleRule ''R1'' [tS], sampleRule ''R2'' [tS]]))
          ''PSCHED1'' [''PEP0001''] sampleState) = Panicked SliceBoundsOutOfRange"
    by (simp add: Let_def Retry_def retryLoop.simps getEPAttempt_def remote_def policyClient_def
        mkClient_def removeScheduleFromEP_def two)
  have three: "removeScheduleLoops ''PSCHED1''
      (samplePolicy [sampleRule ''R1'' [tS], sampleRule ''R2'' [tS], sampleRule ''R3'' [tU]])
    = Inr (True, samplePolicy [sampleRule ''R2'' [tS], sampleRule ''R3'' [tU]])"
    by (simp add: removeScheduleLoops_def samplePolicy_def sampleRule_def tS_def tU_def sliceOf_def
        removeAt_def Let_def upt elems_def)
  have one: "removeScheduleLoops ''PSCHED1'' (samplePolicy [sampleRule ''R1'' [tS]])
    = Inr (True, samplePolicy [])"
    by (simp add: removeScheduleLoops_def samplePolicy_def sampleRule_def tS_def sliceOf_def
        removeAt_def Let_def elems_def)
  from two dis three one show ?thesis by (intro conjI)
qed

subsection \<open>The schedule sent by an update\<close>

lemma updateAttempt_grows:
  "growsBy (\<lambda>e. True) s (snd (updateAttempt c sid schedule overflow v s))"
  by (auto simp: updateAttempt_def remote_def growsBy_def split: prod.splits option.splits)

lemma updateAttempt_trace:
  "trace (snd (updateAttempt c sid schedule overflow v s))
     = trace s @ [SchedulesUpdate sid schedule overflow]"
  by (auto simp: updateAttempt_def remote_def split: prod.splits option.splits)

lemma update_trace:
  assumes "scheduleForUpdate L tick (clock st) cfg = (Inr schedule, clk)"
  shows "\<exists>evs. trace (snd (resourcePagerDutyScheduleUpdate L tick c cfg d st))
           = trace st @ SchedulesUpdate (d_Id d) schedule (cfg_overflow cfg) # evs"
proof -
  let ?f = "updateAttempt c (d_Id d) schedule (cfg_overflow cfg)"
  let ?st = "st\<lparr>clock := clk\<rparr>"
  obtain r u st1 where r: "Retry (2 * Minute) ?f () ?st = ((r, u), st1)"
    by (metis prod.exhaust)
  obtain evs where "trace (snd (Retry (2 * Minute) ?f () ?st)) = trace (snd (?f () ?st)) @ evs"
    using Retry_trace_first [of "\<lambda>e. True" ?f] updateAttempt_grows by blast
  with r have "trace st1 = trace st @ SchedulesUpdate (d_Id d) schedule (cfg_overflow cfg) # evs"
    by (simp add: updateAttempt_trace)
  with r assms show ?thesis
    by (cases r) (simp_all add: resourcePagerDutyScheduleUpdate_def sleep_def)
qed

text \<open>
  C1, as the code has it. With \<open>P\<close> the expansion of the old value of \<^verbatim>\<open>layer\<close> and \<open>D\<close>
  that of the new one, the layers of the schedule that the update builds are \<open>D\<close> unchanged,
  followed by the layers of \<open>P\<close> whose identifier is not an identifier of \<open>D\<close>, in their
  order. The clock is read anew for each of these layers, after the update was called at the
  instant \<open>now\<close>: the reading for the layer of index \<open>i\<close> among them is
  \<open>(tick ^^ Suc i) now\<close>, and the end of that layer is the rendering of this reading cut to
  the second (what parsing the RFC 3339 rendering of the reading gives). On a clock that does
  not go back, every reading is at or after \<open>now\<close>, and the instant of the end is not after
  its reading and less than a second before it. An update called at \<open>now\<close> sends this
  schedule in its first remote call.
\<close>

theorem update_ends_removed_layers:
  assumes "expandScheduleLayers L (cfg_layer_old cfg) = Inr P"
    and "expandScheduleLayers L (cfg_layer cfg) = Inr D"
    and "\<forall>i < length (filter (\<lambda>ol. sl_ID ol \<notin> sl_ID ` set D) P).
           Parse_RFC3339 L (Format_RFC3339 L ((tick ^^ Suc i) now))
             = Some (truncSecond ((tick ^^ Suc i) now))"
    and "\<forall>t. t \<le> tick t"
  shows "scheduleForUpdate L tick now cfg =
           (Inr (builtSchedule cfg
                  (D @ map (\<lambda>(i, ol). ol\<lparr>sl_End :=
                                Some (time_String L (truncSecond ((tick ^^ Suc i) now)))\<rparr>)
                           (enumerate 0 (filter (\<lambda>ol. sl_ID ol \<notin> sl_ID ` set D) P)))),
            (tick ^^ length (filter (\<lambda>ol. sl_ID ol \<notin> sl_ID ` set D) P)) now) \<and>
         (\<forall>i. now \<le> (tick ^^ Suc i) now \<and>
              truncSecond ((tick ^^ Suc i) now) \<le> (tick ^^ Suc i) now \<and>
              (tick ^^ Suc i) now < truncSecond ((tick ^^ Suc i) now) + Second) \<and>
         (\<forall>c d st. clock st = now \<longrightarrow>
            (\<exists>evs. trace (snd (resourcePagerDutyScheduleUpdate L tick c cfg d st)) =
               trace st @
               SchedulesUpdate (d_Id d)
                 (builtSchedule cfg
                    (D @ map (\<lambda>(i, ol). ol\<lparr>sl_End :=
                                  Some (time_String L (truncSecond ((tick ^^ Suc i) now)))\<rparr>)
                             (enumerate 0 (filter (\<lambda>ol. sl_ID ol \<notin> sl_ID ` set D) P))))
                 (cfg_overflow cfg) # evs))"
proof -
  let ?R = "filter (\<lambda>ol. sl_ID ol \<notin> sl_ID ` set D) P"
  let ?W = "D @ map (\<lambda>(i, ol). ol\<lparr>sl_End :=
                        Some (time_String L (truncSecond ((tick ^^ Suc i) now)))\<rparr>)
                    (enumerate 0 ?R)"
  have s: "scheduleForUpdate L tick now cfg = (Inr (builtSchedule cfg ?W), (tick ^^ length ?R) now)"
  proof (cases "cfg_layer_old cfg = cfg_layer cfg")
    case True
    with assms(1,2) have "P = D" by simp
    then have "?R = []" by (simp add: filter_empty_conv)
    with True assms(2) show ?thesis
      by (simp add: scheduleForUpdate_def buildScheduleStruct_def)
  next
    case False
    with assms(1,2) show ?thesis
      by (simp add: scheduleForUpdate_def buildScheduleStruct_def builtSchedule_def
          endRemovedLayers_closed [OF assms(3)])
  qed
  have b: "now \<le> (tick ^^ Suc i) now \<and>
           truncSecond ((tick ^^ Suc i) now) \<le> (tick ^^ Suc i) now \<and>
           (tick ^^ Suc i) now < truncSecond ((tick ^^ Suc i) now) + Second" for i
    using funpow_inflating [OF assms(4), of now "Suc i"]
      truncSecond_le [of "(tick ^^ Suc i) now"] truncSecond_gt [of "(tick ^^ Suc i) now"]
    by (simp add: Second_def)
  have u: "\<exists>evs. trace (snd (resourcePagerDutyScheduleUpdate L tick c cfg d st)) =
               trace st @ SchedulesUpdate (d_Id d) (builtSchedule cfg ?W) (cfg_overflow cfg) # evs"
    if "clock st = now" for c :: "'w Client" and d st
    using update_trace [of L tick st cfg "builtSchedule cfg ?W" "(tick ^^ length ?R) now" c d]
      s that by simp
  from s b u show ?thesis by blast
qed

theorem update_ends_removed_layers_witness:
  "layerIdEnds (expandScheduleLayers sampleLib (cfg_layer_old sampleConfig))
     = [(''PL1'', None), (''PL2'', None), (''PL3'', None)] \<and>
   layerIdEnds (expandScheduleLayers sampleLib (cfg_layer sampleConfig))
     = [(''PL2'', None), ([], None)] \<and>
   layerIdEnds (map_sum id s_ScheduleLayers
                  (fst (scheduleForUpdate sampleLib sampleTick 1000000000999999998 sampleConfig)))
     = [(''PL2'', None), ([], None),
        (''PL1'', Some ''2001-09-09 01:46:40 +0000 UTC''),
        (''PL3'', Some ''2001-09-09 01:46:41 +0000 UTC'')] \<and>
   snd (scheduleForUpdate sampleLib sampleTick 1000000000999999998 sampleConfig)
     = 1000000001000000000 \<and>
   (sampleTick ^^ Suc 0) 1000000000999999998 = 1000000000999999999 \<and>
   truncSecond 1000000000999999999 = 1000000000000000000 \<and>
   (sampleTick ^^ Suc 1) 1000000000999999998 = 1000000001000000000 \<and>
   truncSecond 1000000001000000000 = 1000000001000000000 \<and>
   (\<exists>evs. trace (snd (resourcePagerDutyScheduleUpdate sampleLib sampleTick okClient sampleConfig
                        sampleData (sampleState\<lparr>clock := 1000000000999999998\<rparr>)))
     = SchedulesUpdate ''PSCHED1''
          (projr (fst (scheduleForUpdate sampleLib sampleTick 1000000000999999998 sampleConfig)))
          False # evs)"
proof -
  let ?now = "1000000000999999998 :: time"
  have b: "layerIdEnds (expandScheduleLayers sampleLib (cfg_layer_old sampleConfig))
     = [(''PL1'', None), (''PL2'', None), (''PL3'', None)]"
    "layerIdEnds (expandScheduleLayers sampleLib (cfg_layer sampleConfig))
     = [(''PL2'', None), ([], None)]"
    by (simp_all add: layerIdEnds_def expandScheduleLayers_def timeToUTC_def cfgLayer_def
        stringTypeToStringPtr_def sampleLib_def sampleConfig_def)
  obtain P where P: "expandScheduleLayers sampleLib (cfg_layer_old sampleConfig) = Inr P"
    by (simp add: expandScheduleLayers_def timeToUTC_def cfgLayer_def sampleLib_def
        sampleConfig_def)
  obtain D where D: "expandScheduleLayers sampleLib (cfg_layer sampleConfig) = Inr D"
    by (simp add: expandScheduleLayers_def timeToUTC_def cfgLayer_def sampleLib_def
        sampleConfig_def)
  have P': "P = projr (expandScheduleLayers sampleLib (cfg_layer_old sampleConfig))"
    using P by simp
  have D': "D = projr (expandScheduleLayers sampleLib (cfg_layer sampleConfig))"
    using D by simp
  have r: "(sampleTick ^^ Suc 0) ?now = 1000000000999999999"
    "(sampleTick ^^ Suc 1) ?now = 1000000001000000000"
    by (simp_all add: sampleTick_def)
  have t: "truncSecond 1000000000999999999 = 1000000000000000000"
    "truncSecond 1000000001000000000 = 1000000001000000000"
    by (simp_all add: truncSecond_def)
  have len: "length (filter (\<lambda>ol. sl_ID ol \<notin> sl_ID ` set D) P) = 2"
    unfolding P' D'
    by (simp add: expandScheduleLayers_def timeToUTC_def cfgLayer_def sampleLib_def
        sampleConfig_def)
  have c: "\<forall>i < length (filter (\<lambda>ol. sl_ID ol \<notin> sl_ID ` set D) P).
           Parse_RFC3339 sampleLib (Format_RFC3339 sampleLib ((sampleTick ^^ Suc i) ?now))
             = Some (truncSecond ((sampleTick ^^ Suc i) ?now))"
    unfolding len
    by (simp add: less_2_cases_iff sampleTick_def truncSecond_def sampleLib_def)
  have m: "\<forall>t. t \<le> sampleTick t" by (simp add: sampleTick_def)
  note th = update_ends_removed_layers [OF P D c m]
  note s = th [THEN conjunct1]
  have a: "layerIdEnds (map_sum id s_ScheduleLayers
                  (fst (scheduleForUpdate sampleLib sampleTick ?now sampleConfig)))
     = [(''PL2'', None), ([], None),
        (''PL1'', Some ''2001-09-09 01:46:40 +0000 UTC''),
        (''PL3'', Some ''2001-09-09 01:46:41 +0000 UTC'')]"
    unfolding s unfolding P' D'
    by (simp add: layerIdEnds_def expandScheduleLayers_def timeToUTC_def cfgLayer_def
        stringTypeToStringPtr_def sampleLib_def sampleConfig_def builtSchedule_def
        enumerate_eq_zip upt_rec sampleTick_def truncSecond_def)
  have e: "snd (scheduleForUpdate sampleLib sampleTick ?now sampleConfig) = 1000000001000000000"
    unfolding s len by (simp add: numeral_2_eq_2 sampleTick_def)
  have k: "clock (sampleState\<lparr>clock := ?now\<rparr>) = ?now"
    by simp
  have u: "\<exists>evs. trace (snd (resourcePagerDutyScheduleUpdate sampleLib sampleTick okClient
                        sampleConfig sampleData (sampleState\<lparr>clock := ?now\<rparr>)))
     = SchedulesUpdate ''PSCHED1''
          (projr (fst (scheduleForUpdate sampleLib sampleTick ?now sampleConfig))) False # evs"
    using th [THEN conjunct2, THEN conjunct2, THEN spec, THEN spec, THEN spec, THEN mp, OF k,
        of okClient sampleData]
    unfolding s
    by (simp add: sampleData_def sampleState_def sampleConfig_def)
  from b a e r t u show ?thesis by (intro conjI)
qed

text \<open>
  The claim as stated fails where the clock passes a full second between the call of the
  update and the reading for a layer: the update is called a nanosecond before
  2001-09-09T01:46:41Z, the clock is read a nanosecond later, and the layers that are gone
  end at 01:46:41, after the instant of the call.
\<close>

theorem update_ends_removed_layers_counterexample:
  "layerIdEnds (map_sum id s_ScheduleLayers
                  (fst (scheduleForUpdate sampleLib sampleTick 1000000000999999999 sampleConfig)))
     = [(''PL2'', None), ([], None),
        (''PL1'', Some ''2001-09-09 01:46:41 +0000 UTC''),
        (''PL3'', Some ''2001-09-09 01:46:41 +0000 UTC'')] \<and>
   sampleTick 1000000000999999999 = 1000000001000000000 \<and>
   time_String sampleLib 1000000001000000000 = ''2001-09-09 01:46:41 +0000 UTC'' \<and>
   \<not> (1000000001000000000 :: time) \<le> 1000000000999999999"
  by (simp add: layerIdEnds_def scheduleForUpdate_def buildScheduleStruct_def builtSchedule_def
      expandScheduleLayers_def timeToUTC_def cfgLayer_def stringTypeToStringPtr_def
      sampleLib_def sampleConfig_def sampleTick_def truncSecond_def Let_def)

end
